theory Spec2Isabelle
  imports Complex_Main "HOL-Library.Multiset"
begin

section \<open>JavaScript values used by the server\<close>

text \<open>
  A \<^verbatim>\<open>Date\<close> object is observed by the server only through \<^verbatim>\<open>getTime()\<close>,
  \<^verbatim>\<open>getFullYear()\<close>, \<^verbatim>\<open>getMonth()\<close> (both in the server's local time zone),
  \<^verbatim>\<open>toISOString()\<close> and the \<^verbatim>\<open>getDay()\<close> of the day that string names. A valid date
  is the record of these observations (the calendar itself is the runtime's, not the
  repository's); the field \<open>weekday\<close> is the day name that
  \<^verbatim>\<open>["Sunday", ...][new Date(isoDay).getDay()]\<close> selects. An \<^verbatim>\<open>Invalid Date\<close>
  (time value NaN) is \<open>None\<close>: every getter of it returns NaN and
  \<^verbatim>\<open>toISOString()\<close> throws a RangeError.

  Numbers: amounts are the integers of the schema's \<^verbatim>\<open>integer("amount")\<close> column and
  ids are integers (counters stay far below \<open>2 ^ 53\<close>). A number that may be NaN is an
  \<open>option\<close> with \<open>None\<close> for NaN. The percentage of \<^verbatim>\<open>generateInsights\<close> is one
  quotient, taken as the exact rational before it is rounded. The amounts in rupees and
  their sums and averages, which the generators compute in IEEE double arithmetic and
  send to the hosted model, are not evaluated: such a number is the expression that
  computes it, so that two of them are equal only when the code performs the same
  operations on the same operands in the same order.
\<close>

datatype jsnum =
    NumInt int
  | NumAdd jsnum jsnum
  | NumDiv jsnum jsnum

datatype weekday = Sunday | Monday | Tuesday | Wednesday | Thursday | Friday | Saturday

record dateval =
  time :: int
  fullYear :: int
  month :: int
  weekday :: weekday

type_synonym jsdate = "dateval option"

definition getTime :: "jsdate \<Rightarrow> int option" where
  "getTime d = map_option time d"

definition getFullYear :: "jsdate \<Rightarrow> int option" where
  "getFullYear d = map_option fullYear d"

definition getMonth :: "jsdate \<Rightarrow> int option" where
  "getMonth d = map_option month d"

text \<open>\<^verbatim>\<open>Math.round\<close> rounds to the nearest integer, halves towards \<open>+\<infinity>\<close>.\<close>

definition Math_round :: "rat \<Rightarrow> int" where
  "Math_round x = \<lfloor>x + 1 / 2\<rfloor>"

subsection \<open>An ES6 \<^verbatim>\<open>Map\<close>: entries in insertion order\<close>

text \<open>
  \<^verbatim>\<open>Map.prototype.set\<close> replaces the value of a key that is present, in place, and
  appends a new key at the end; \<^verbatim>\<open>values()\<close> and \<^verbatim>\<open>entries()\<close> iterate in that
  order.
\<close>

type_synonym ('k, 'v) jsmap = "('k \<times> 'v) list"

primrec Map_set :: "'k \<Rightarrow> 'v \<Rightarrow> ('k, 'v) jsmap \<Rightarrow> ('k, 'v) jsmap" where
  "Map_set k v [] = [(k, v)]"
| "Map_set k v (p # ps) = (if fst p = k then (k, v) # ps else p # Map_set k v ps)"

definition Map_get :: "('k, 'v) jsmap \<Rightarrow> 'k \<Rightarrow> 'v option" where
  "Map_get m k = map_of m k"

definition Map_values :: "('k, 'v) jsmap \<Rightarrow> 'v list" where
  "Map_values m = map snd m"

definition Map_keys :: "('k, 'v) jsmap \<Rightarrow> 'k list" where
  "Map_keys m = map fst m"

subsection \<open>\<^verbatim>\<open>Array.prototype.sort\<close> with a comparator\<close>

text \<open>
  The server sorts with comparators of the form \<^verbatim>\<open>(a, b) => key(b) - key(a)\<close>. While no
  comparison is NaN such a comparator is consistent, and the result is the one of a
  stable sort that puts \<open>a\<close> before \<open>b\<close> when the comparator is negative: the insertion
  sort below. When a comparison is NaN the comparator is not consistent and the order of
  the result is the implementation's, some permutation of the array: \<open>rt\<close> stands for
  what the runtime's sort returns on such an array, and is followed as far as it
  permutes the array.
\<close>

fun insort_cmp :: "('a \<Rightarrow> 'a \<Rightarrow> int) \<Rightarrow> 'a \<Rightarrow> 'a list \<Rightarrow> 'a list" where
  "insort_cmp c x [] = [x]"
| "insort_cmp c x (y # ys) = (if c x y \<le> 0 then x # y # ys else y # insort_cmp c x ys)"

definition runtimeOrder :: "('a list \<Rightarrow> 'a list) \<Rightarrow> 'a list \<Rightarrow> 'a list" where
  "runtimeOrder rt xs = (if mset (rt xs) = mset xs then rt xs else xs)"

definition Array_sort ::
  "('a list \<Rightarrow> 'a list) \<Rightarrow> ('a \<Rightarrow> 'a \<Rightarrow> int option) \<Rightarrow> 'a list \<Rightarrow> 'a list" where
  "Array_sort rt cmp xs =
     (if list_all (\<lambda>a. list_all (\<lambda>b. cmp a b \<noteq> None) xs) xs
      then foldr (insort_cmp (\<lambda>a b. case cmp a b of None \<Rightarrow> 0 | Some v \<Rightarrow> v)) xs []
      else runtimeOrder rt xs)"

section \<open>The schema (shared/schema.ts)\<close>

record user =
  id_u :: int
  username :: string
  password :: string

record insert_user =
  ins_username :: string
  ins_password :: string

text \<open>
  A stored transaction. \<open>isIncome\<close> is read only for its truthiness and
  \<open>description\<close> is never read by the server.
\<close>

record transaction =
  id_t :: int
  userId :: int
  amount :: int
  category :: string
  description :: "string option"
  date :: jsdate
  isIncome :: bool

text \<open>
  \<^verbatim>\<open>InsertTransaction & { userId: number }\<close>, the argument of \<^verbatim>\<open>createTransaction\<close>;
  \<open>nt_date = None\<close> is a falsy \<^verbatim>\<open>date\<close>.
\<close>

record new_transaction =
  nt_userId :: int
  nt_amount :: int
  nt_category :: string
  nt_description :: "string option"
  nt_date :: "jsdate option"
  nt_isIncome :: bool

section \<open>MemStorage (server/storage.ts)\<close>

record memstorage =
  users :: "(int, user) jsmap"
  transactions :: "(int, transaction) jsmap"
  currentUserId :: int
  currentTransactionId :: int

definition MemStorage_new :: memstorage where
  "MemStorage_new =
     \<lparr>users = [], transactions = [], currentUserId = 1, currentTransactionId = 1\<rparr>"

text \<open>
  Every method is a function from the store to its result and the store it leaves. The
  two methods that sort take the runtime's sort \<open>rt\<close>.
\<close>

definition getUser :: "memstorage \<Rightarrow> int \<Rightarrow> user option \<times> memstorage" where
  "getUser s i = (Map_get (users s) i, s)"

definition getUserByUsername :: "memstorage \<Rightarrow> string \<Rightarrow> user option \<times> memstorage" where
  "getUserByUsername s name = (find (\<lambda>u. username u = name) (Map_values (users s)), s)"

definition createUser :: "memstorage \<Rightarrow> insert_user \<Rightarrow> user \<times> memstorage" where
  "createUser s insertUser =
     (let i = currentUserId s;
          s1 = s\<lparr>currentUserId := i + 1\<rparr>;
          u = \<lparr>id_u = i, username = ins_username insertUser, password = ins_password insertUser\<rparr>
      in (u, s1\<lparr>users := Map_set i u (users s1)\<rparr>))"

definition byDateDesc :: "transaction \<Rightarrow> transaction \<Rightarrow> int option" where
  "byDateDesc a b =
     (case (getTime (date b), getTime (date a)) of
        (Some tb, Some ta) \<Rightarrow> Some (tb - ta)
      | _ \<Rightarrow> None)"

definition getTransactions ::
  "(transaction list \<Rightarrow> transaction list) \<Rightarrow> memstorage \<Rightarrow> int \<Rightarrow>
   transaction list \<times> memstorage" where
  "getTransactions rt s uid =
     (Array_sort rt byDateDesc (filter (\<lambda>t. userId t = uid) (Map_values (transactions s))), s)"

definition inMonth :: "int \<Rightarrow> int \<Rightarrow> int \<Rightarrow> transaction \<Rightarrow> bool" where
  "inMonth uid y m t =
     (userId t = uid \<and> getFullYear (date t) = Some y \<and> getMonth (date t) = Some m)"

definition getTransactionsByMonth ::
  "(transaction list \<Rightarrow> transaction list) \<Rightarrow> memstorage \<Rightarrow> int \<Rightarrow> int \<Rightarrow> int \<Rightarrow>
   transaction list \<times> memstorage" where
  "getTransactionsByMonth rt s uid y m =
     (Array_sort rt byDateDesc (filter (inMonth uid y m) (Map_values (transactions s))), s)"

text \<open>\<open>now\<close> is the value of \<^verbatim>\<open>new Date()\<close> at the call.\<close>

definition createTransaction ::
  "memstorage \<Rightarrow> dateval \<Rightarrow> new_transaction \<Rightarrow> transaction \<times> memstorage" where
  "createTransaction s now transactionData =
     (let i = currentTransactionId s;
          s1 = s\<lparr>currentTransactionId := i + 1\<rparr>;
          t = \<lparr>id_t = i,
               userId = nt_userId transactionData,
               amount = nt_amount transactionData,
               category = nt_category transactionData,
               description = nt_description transactionData,
               date = (case nt_date transactionData of Some d \<Rightarrow> d | None \<Rightarrow> Some now),
               isIncome = nt_isIncome transactionData\<rparr>
      in (t, s1\<lparr>transactions := Map_set i t (transactions s1)\<rparr>))"

text \<open>
  The routes use the store through the \<^verbatim>\<open>IStorage\<close> interface, whose methods return
  promises: a call either rejects with a thrown value or resolves, and leaves a store.
  \<open>storage\<close> is the exported \<^verbatim>\<open>new MemStorage()\<close>, none of whose methods rejects, on a
  runtime whose sort is \<open>rt\<close>.
\<close>

datatype exn = Exn string

record 's IStorage =
  st_getTransactions :: "'s \<Rightarrow> int \<Rightarrow> (exn + transaction list) \<times> 's"
  st_getTransactionsByMonth :: "'s \<Rightarrow> int \<Rightarrow> int \<Rightarrow> int \<Rightarrow> (exn + transaction list) \<times> 's"
  st_createTransaction :: "'s \<Rightarrow> dateval \<Rightarrow> new_transaction \<Rightarrow> (exn + transaction) \<times> 's"

definition storage :: "(transaction list \<Rightarrow> transaction list) \<Rightarrow> memstorage IStorage" where
  "storage rt =
     \<lparr>st_getTransactions = (\<lambda>s uid. apfst Inr (getTransactions rt s uid)),
      st_getTransactionsByMonth = (\<lambda>s uid y m. apfst Inr (getTransactionsByMonth rt s uid y m)),
      st_createTransaction = (\<lambda>s now d. apfst Inr (createTransaction s now d))\<rparr>"

section \<open>The basic insights helper (generateInsights)\<close>

datatype insight_type = increase | decrease | new_category | tip

record insight =
  insightText :: string
  insightType :: insight_type

record yearmonth =
  ym_year :: int
  ym_month :: int

text \<open>\<^verbatim>\<open>String(n)\<close> for an integer \<open>n\<close>: its decimal digits.\<close>

definition digit :: "nat \<Rightarrow> char" where
  "digit d = nth ''0123456789'' d"

fun decimal :: "nat \<Rightarrow> string" where
  "decimal n = (if 10 \<le> n then decimal (n div 10) @ [digit (n mod 10)] else [digit n])"

definition String_int :: "int \<Rightarrow> string" where
  "String_int i = (if 0 \<le> i then decimal (nat i) else CHR ''-'' # decimal (nat (- i)))"

text \<open>
  \<^verbatim>\<open>data.filter(t => !t.isIncome).forEach(t => { const current = m.get(t.category) || 0;
  m.set(t.category, current + t.amount) })\<close> on a fresh \<^verbatim>\<open>Map\<close>.
\<close>

definition addByCategory :: "transaction \<Rightarrow> (string, int) jsmap \<Rightarrow> (string, int) jsmap" where
  "addByCategory t m =
     (let current = (case Map_get m (category t) of None \<Rightarrow> 0 | Some v \<Rightarrow> v)
      in Map_set (category t) (current + amount t) m)"

definition groupByCategory :: "transaction list \<Rightarrow> (string, int) jsmap" where
  "groupByCategory data = fold addByCategory (filter (\<lambda>t. \<not> isIncome t) data) []"

definition increasePercentage :: "int \<Rightarrow> int \<Rightarrow> int" where
  "increasePercentage amnt previousAmount =
     Math_round ((of_int (amnt - previousAmount) / of_int previousAmount) * 100)"

text \<open>The body of the loop over \<^verbatim>\<open>currentByCategory.entries()\<close>: what one entry pushes.\<close>

definition categoryInsights :: "(string, int) jsmap \<Rightarrow> string \<times> int \<Rightarrow> insight list" where
  "categoryInsights previousByCategory entry =
     (case entry of (cat, amnt) \<Rightarrow>
        let previousAmount = (case Map_get previousByCategory cat of None \<Rightarrow> 0 | Some v \<Rightarrow> v)
        in if previousAmount = 0 then
             [\<lparr>insightText = ''New spending category detected: '' @ cat @
                 ''. Consider if this is a one-time expense or a new budget item.'',
               insightType = new_category\<rparr>]
           else
             (let pct = increasePercentage amnt previousAmount
              in (if pct \<ge> 25 then
                    [\<lparr>insightText = ''Your '' @ cat @ '' expenses increased by '' @
                        String_int pct @
                        ''% compared to last month. Consider setting a budget for this category.'',
                      insightType = increase\<rparr>]
                  else []) @
                 (if pct \<le> - 25 then
                    [\<lparr>insightText = ''Great job! You reduced your '' @ cat @ '' expenses by '' @
                        String_int \<bar>pct\<bar> @ ''% compared to last month.'',
                      insightType = decrease\<rparr>]
                  else [])))"

text \<open>
  \<open>rnd\<close> is the value of \<^verbatim>\<open>Math.floor(Math.random() * tips.length)\<close>, one of 0, 1, 2.
\<close>

definition genericTip :: "nat \<Rightarrow> insight" where
  "genericTip rnd =
     \<lparr>insightText =
        (case rnd of
           0 \<Rightarrow> ''Try setting a monthly budget for each spending category to better track your expenses.''
         | Suc 0 \<Rightarrow> ''Consider saving at least 20% of your income each month for financial security.''
         | _ \<Rightarrow> ''Review your subscriptions regularly to identify services you no longer use.''),
      insightType = tip\<rparr>"

definition welcomeTip :: insight where
  "welcomeTip =
     \<lparr>insightText =
        ''Welcome to your expense tracker! Add more transactions to get personalized insights.'',
      insightType = tip\<rparr>"

definition fallbackTip :: insight where
  "fallbackTip =
     \<lparr>insightText = ''Add more transactions to get personalized spending insights.'',
      insightType = tip\<rparr>"

text \<open>
  The promise always resolves: a rejection of either storage call is caught, and the
  catch branch pushes the fallback tip onto \<open>insights\<close>, which is still empty there.
\<close>

definition generateInsights ::
  "'s IStorage \<Rightarrow> nat \<Rightarrow> yearmonth \<Rightarrow> yearmonth \<Rightarrow> int \<Rightarrow> 's \<Rightarrow> insight list \<times> 's" where
  "generateInsights S rnd currentMonth previousMonth uid s =
     (case st_getTransactionsByMonth S s uid (ym_year currentMonth) (ym_month currentMonth) of
        (Inl e, s1) \<Rightarrow> ([] @ [fallbackTip], s1)
      | (Inr currentMonthData, s1) \<Rightarrow>
          (case st_getTransactionsByMonth S s1 uid (ym_year previousMonth) (ym_month previousMonth) of
             (Inl e, s2) \<Rightarrow> ([] @ [fallbackTip], s2)
           | (Inr previousMonthData, s2) \<Rightarrow>
               (if length previousMonthData = 0 then ([] @ [welcomeTip], s2)
                else
                  (let currentByCategory = groupByCategory currentMonthData;
                       previousByCategory = groupByCategory previousMonthData;
                       insights = concat (map (categoryInsights previousByCategory) currentByCategory);
                       insights1 = (if length insights = 0 then insights @ [genericTip rnd]
                                    else insights)
                   in (take 3 insights1, s2)))))"

section \<open>AI insights (server/ai-insights.ts)\<close>

subsection \<open>Parsed JSON and the JavaScript operators applied to it\<close>

text \<open>
  The value \<^verbatim>\<open>JSON.parse\<close> returns: an object is the list of its own properties, and
  a number is the exact value of the finite double that was read (a literal beyond the
  range of doubles is not modelled). None of the property names the generators read is
  an inherited property of a parsed value, so reading a property of anything but an
  object gives \<^verbatim>\<open>undefined\<close> (\<open>None\<close>); reading a property of \<^verbatim>\<open>null\<close> throws, which
  each parser checks first.
\<close>

datatype json =
    JNull
  | JBool bool
  | JNum rat
  | JStr string
  | JArr "json list"
  | JObj "(string \<times> json) list"

fun getProp :: "json \<Rightarrow> string \<Rightarrow> json option" where
  "getProp (JObj kvs) k = map_of kvs k"
| "getProp v k = None"

fun truthy :: "json \<Rightarrow> bool" where
  "truthy JNull = False"
| "truthy (JBool b) = b"
| "truthy (JNum r) = (r \<noteq> 0)"
| "truthy (JStr s) = (s \<noteq> [])"
| "truthy (JArr xs) = True"
| "truthy (JObj kvs) = True"

text \<open>\<^verbatim>\<open>v || d\<close> for a property \<open>v\<close> that may be \<^verbatim>\<open>undefined\<close>.\<close>

definition orElse :: "json option \<Rightarrow> json \<Rightarrow> json" where
  "orElse v d = (case v of None \<Rightarrow> d | Some x \<Rightarrow> if truthy x then x else d)"

text \<open>
  \<^verbatim>\<open>Math.round(v)\<close> of a JSON value: a number is rounded; another (truthy) value is
  first coerced by \<^verbatim>\<open>ToNumber\<close>, which is left uninterpreted.
\<close>

datatype rounded = Rounded int | RoundedCoerced json

fun Math_round_json :: "json \<Rightarrow> rounded" where
  "Math_round_json (JNum r) = Rounded (Math_round r)"
| "Math_round_json v = RoundedCoerced v"

subsection \<open>The chat-completion endpoint\<close>

text \<open>
  A transaction as the generators send it: \<^verbatim>\<open>{...t, amount: t.amount / 100, date:
  new Date(t.date).toISOString().split('T')[0]}\<close>. \<open>f_date\<close> stands for the ISO day string:
  it is the valid date the string was taken from.
\<close>

record formatted =
  f_id :: int
  f_userId :: int
  f_amount :: jsnum
  f_category :: string
  f_description :: "string option"
  f_date :: dateval
  f_isIncome :: bool

record cat_total =
  c_total :: jsnum
  c_avg :: jsnum

record budget_group =
  g_total :: jsnum
  g_count :: nat
  g_transactions :: "formatted list"

record cat_analysis =
  a_total :: jsnum
  a_avg :: jsnum
  a_transactions :: nat

text \<open>
  The user message of a request: which template it is, and the values the template
  interpolates. A plain object used as a dictionary is a map from its own keys.
\<close>

datatype user_prompt =
    ForecastPrompt "formatted list" "string \<Rightarrow> cat_total option"
  | BudgetPrompt "string \<Rightarrow> budget_group option"
  | SavingsPrompt int "string \<Rightarrow> cat_analysis option"
  | BillsPrompt "formatted list"
  | PatternsPrompt "formatted list" "weekday \<Rightarrow> nat" jsnum

record chat_request =
  model :: string
  systemContent :: string
  userContent :: user_prompt

text \<open>
  What \<^verbatim>\<open>JSON.parse(response.choices[0].message.content || '{}')\<close> comes to after
  \<^verbatim>\<open>await openai.chat.completions.create(request)\<close>: \<open>Threw\<close> when the call rejects, the
  reply has no choice or its content is not JSON; otherwise the parsed value.
\<close>

datatype llm_outcome = Threw | Parsed json

type_synonym llm = "chat_request \<Rightarrow> llm_outcome"

subsection \<open>Preparing the transactions\<close>

definition formatTransaction :: "transaction \<Rightarrow> formatted option" where
  "formatTransaction t =
     (case date t of
        None \<Rightarrow> None
      | Some d \<Rightarrow>
          Some \<lparr>f_id = id_t t, f_userId = userId t, f_amount = NumDiv (NumInt (amount t)) (NumInt 100),
                f_category = category t, f_description = description t, f_date = d,
                f_isIncome = isIncome t\<rparr>)"

text \<open>\<open>None\<close>: \<^verbatim>\<open>toISOString()\<close> threw on an invalid date.\<close>

definition formatTransactions :: "transaction list \<Rightarrow> formatted list option" where
  "formatTransactions expenses = those (map formatTransaction expenses)"

text \<open>
  \<^verbatim>\<open>const byCategory = {}\<close> inherits the properties of \<^verbatim>\<open>Object.prototype\<close>. For a
  category that is one of their names, \<^verbatim>\<open>byCategory[t.category]\<close> is truthy before
  anything was stored, the initialisation is skipped, and the \<^verbatim>\<open>push\<close> that follows
  throws a TypeError.
\<close>

definition objectPrototypeKeys :: "string list" where
  "objectPrototypeKeys =
     [''constructor'', ''__defineGetter__'', ''__defineSetter__'', ''hasOwnProperty'',
      ''__lookupGetter__'', ''__lookupSetter__'', ''isPrototypeOf'', ''propertyIsEnumerable'',
      ''toString'', ''valueOf'', ''__proto__'', ''toLocaleString'']"

definition inherited :: "string \<Rightarrow> bool" where
  "inherited k = (k \<in> set objectPrototypeKeys)"

definition pushAmount ::
  "formatted \<Rightarrow> (string \<Rightarrow> jsnum list option) \<Rightarrow> (string \<Rightarrow> jsnum list option)" where
  "pushAmount t byCategory =
     byCategory(f_category t \<mapsto>
       (case byCategory (f_category t) of None \<Rightarrow> [] | Some amounts \<Rightarrow> amounts) @ [f_amount t])"

definition groupAmounts :: "formatted list \<Rightarrow> (string \<Rightarrow> jsnum list option) option" where
  "groupAmounts formattedTransactions =
     (if list_ex (\<lambda>t. inherited (f_category t)) formattedTransactions then None
      else Some (fold pushAmount formattedTransactions Map.empty))"

definition categoryTotals :: "(string \<Rightarrow> jsnum list option) \<Rightarrow> (string \<Rightarrow> cat_total option)" where
  "categoryTotals byCategory =
     (\<lambda>c. case byCategory c of
             None \<Rightarrow> None
           | Some amounts \<Rightarrow>
               (let total = foldl NumAdd (NumInt 0) amounts
                in Some \<lparr>c_total = total,
                         c_avg = NumDiv total (NumInt (int (length amounts)))\<rparr>))"

definition categoryAnalysis :: "(string \<Rightarrow> jsnum list option) \<Rightarrow> (string \<Rightarrow> cat_analysis option)" where
  "categoryAnalysis byCategory =
     (\<lambda>c. case byCategory c of
             None \<Rightarrow> None
           | Some amounts \<Rightarrow>
               (let total = foldl NumAdd (NumInt 0) amounts
                in Some \<lparr>a_total = total,
                         a_avg = NumDiv total (NumInt (int (length amounts))),
                         a_transactions = length amounts\<rparr>))"

definition addToGroup ::
  "formatted \<Rightarrow> (string \<Rightarrow> budget_group option) \<Rightarrow> (string \<Rightarrow> budget_group option)" where
  "addToGroup t byCategory =
     (let g = (case byCategory (f_category t) of
                 None \<Rightarrow> \<lparr>g_total = NumInt 0, g_count = 0, g_transactions = []\<rparr>
               | Some g0 \<Rightarrow> g0)
      in byCategory(f_category t \<mapsto>
           \<lparr>g_total = NumAdd (g_total g) (f_amount t), g_count = g_count g + 1,
            g_transactions = g_transactions g @ [t]\<rparr>))"

definition groupBudget :: "formatted list \<Rightarrow> (string \<Rightarrow> budget_group option) option" where
  "groupBudget formattedTransactions =
     (if list_ex (\<lambda>t. inherited (f_category t)) formattedTransactions then None
      else Some (fold addToGroup formattedTransactions Map.empty))"

definition dayOfWeekDistribution :: "formatted list \<Rightarrow> weekday \<Rightarrow> nat" where
  "dayOfWeekDistribution formattedTransactions =
     fold (\<lambda>t dist. dist(weekday (f_date t) := dist (weekday (f_date t)) + 1))
       formattedTransactions (\<lambda>d. 0)"

subsection \<open>Results and their parsers\<close>

text \<open>
  A field written \<^verbatim>\<open>x || d\<close> holds whatever truthy JSON value the reply had; a field
  copied as it is (\<^verbatim>\<open>category: suggestion.category\<close>) may be \<^verbatim>\<open>undefined\<close>.
  A parser returns \<open>None\<close> where the code returns \<^verbatim>\<open>null\<close> or throws into the
  generator's catch, which returns \<^verbatim>\<open>null\<close> as well.
\<close>

record spending_forecast =
  sf_totalExpense :: rounded
  sf_categoryBreakdown :: json
  sf_confidence :: json

record budget_suggestion =
  bs_category :: "json option"
  bs_currentSpending :: rounded
  bs_suggestedBudget :: rounded
  bs_reasoning :: json

record category_cut =
  cut_category :: "json option"
  cut_currentSpending :: rounded
  cut_suggestedReduction :: rounded
  cut_monthlySavings :: rounded

record savings_goal =
  sg_targetAmount :: json
  sg_timeframeMonths :: json
  sg_categoryCuts :: "category_cut list"
  sg_reasoning :: json

record bill_reminder =
  br_description :: json
  br_estimatedAmount :: rounded
  br_dueDate :: json
  br_confidence :: json

record spending_pattern =
  sp_pattern :: json
  sp_impact :: json
  sp_suggestion :: json

definition parseSpendingForecast :: "json \<Rightarrow> spending_forecast option" where
  "parseSpendingForecast result =
     (if result = JNull then None
      else Some
        \<lparr>sf_totalExpense = Math_round_json (orElse (getProp result ''totalExpense'') (JNum 0)),
         sf_categoryBreakdown = orElse (getProp result ''categoryBreakdown'') (JObj []),
         sf_confidence = orElse (getProp result ''confidence'') (JNum (1 / 2))\<rparr>)"

definition parseSuggestion :: "json \<Rightarrow> budget_suggestion option" where
  "parseSuggestion suggestion =
     (if suggestion = JNull then None
      else Some
        \<lparr>bs_category = getProp suggestion ''category'',
         bs_currentSpending =
           Math_round_json (orElse (getProp suggestion ''currentSpending'') (JNum 0)),
         bs_suggestedBudget =
           Math_round_json (orElse (getProp suggestion ''suggestedBudget'') (JNum 0)),
         bs_reasoning = orElse (getProp suggestion ''reasoning'') (JStr [])\<rparr>)"

definition parseBudgetSuggestions :: "json \<Rightarrow> budget_suggestion list option" where
  "parseBudgetSuggestions result =
     (if result = JNull then None
      else case getProp result ''suggestions'' of
             Some (JArr suggestions) \<Rightarrow> those (map parseSuggestion suggestions)
           | _ \<Rightarrow> None)"

definition parseCut :: "json \<Rightarrow> category_cut option" where
  "parseCut categoryCut =
     (if categoryCut = JNull then None
      else Some
        \<lparr>cut_category = getProp categoryCut ''category'',
         cut_currentSpending =
           Math_round_json (orElse (getProp categoryCut ''currentSpending'') (JNum 0)),
         cut_suggestedReduction =
           Math_round_json (orElse (getProp categoryCut ''suggestedReduction'') (JNum 0)),
         cut_monthlySavings =
           Math_round_json (orElse (getProp categoryCut ''monthlySavings'') (JNum 0))\<rparr>)"

definition parseSavingsGoal :: "int \<Rightarrow> json \<Rightarrow> savings_goal option" where
  "parseSavingsGoal goalAmount result =
     (if result = JNull then None
      else case (case getProp result ''categoryCuts'' of
                   Some (JArr cuts) \<Rightarrow> those (map parseCut cuts)
                 | _ \<Rightarrow> Some []) of
             None \<Rightarrow> None
           | Some categoryCuts \<Rightarrow>
               Some
                 \<lparr>sg_targetAmount = orElse (getProp result ''targetAmount'') (JNum (of_int goalAmount)),
                  sg_timeframeMonths = orElse (getProp result ''timeframeMonths'') (JNum 3),
                  sg_categoryCuts = categoryCuts,
                  sg_reasoning = orElse (getProp result ''reasoning'') (JStr [])\<rparr>)"

definition parseReminder :: "json \<Rightarrow> bill_reminder option" where
  "parseReminder reminder =
     (if reminder = JNull then None
      else Some
        \<lparr>br_description = orElse (getProp reminder ''description'') (JStr []),
         br_estimatedAmount =
           Math_round_json (orElse (getProp reminder ''estimatedAmount'') (JNum 0)),
         br_dueDate = orElse (getProp reminder ''dueDate'') (JStr []),
         br_confidence = orElse (getProp reminder ''confidence'') (JNum (1 / 2))\<rparr>)"

definition parseBillReminders :: "json \<Rightarrow> bill_reminder list option" where
  "parseBillReminders result =
     (if result = JNull then None
      else case getProp result ''billReminders'' of
             Some (JArr reminders) \<Rightarrow> those (map parseReminder reminders)
           | _ \<Rightarrow> None)"

definition parsePattern :: "json \<Rightarrow> spending_pattern option" where
  "parsePattern pattern =
     (if pattern = JNull then None
      else Some
        \<lparr>sp_pattern = orElse (getProp pattern ''pattern'') (JStr []),
         sp_impact = orElse (getProp pattern ''impact'') (JNum 0),
         sp_suggestion = orElse (getProp pattern ''suggestion'') (JStr [])\<rparr>)"

definition parseSpendingPatterns :: "json \<Rightarrow> spending_pattern list option" where
  "parseSpendingPatterns result =
     (if result = JNull then None
      else case getProp result ''patterns'' of
             Some (JArr patterns) \<Rightarrow> those (map parsePattern patterns)
           | _ \<Rightarrow> None)"

subsection \<open>The generators\<close>

text \<open>
  A generator returns its result (\<open>None\<close> for \<^verbatim>\<open>null\<close>) and the requests it sent to the
  endpoint, in order. \<open>callModel\<close> is the part of the \<^verbatim>\<open>try\<close> block from the
  \<^verbatim>\<open>await\<close> on: one request, then the parse of the reply.
\<close>

definition callModel ::
  "llm \<Rightarrow> chat_request \<Rightarrow> (json \<Rightarrow> 'a option) \<Rightarrow> 'a option \<times> chat_request list" where
  "callModel ask request parse =
     (case ask request of
        Threw \<Rightarrow> (None, [request])
      | Parsed result \<Rightarrow> (parse result, [request]))"

definition generateSpendingForecast ::
  "llm \<Rightarrow> int \<Rightarrow> transaction list \<Rightarrow> spending_forecast option \<times> chat_request list" where
  "generateSpendingForecast ask uid txs =
     (if length txs < 5 then (None, [])
      else
        (let expenses = filter (\<lambda>t. \<not> isIncome t) txs
         in case formatTransactions expenses of
              None \<Rightarrow> (None, [])
            | Some formattedTransactions \<Rightarrow>
                (case groupAmounts formattedTransactions of
                   None \<Rightarrow> (None, [])
                 | Some byCategory \<Rightarrow>
                     callModel ask
                       \<lparr>model = ''gpt-4o'',
                        systemContent = ''You are a financial analyst assistant that creates spending forecasts based on transaction history. Provide the forecast in JSON format with categoryBreakdown and confidence level (0-1).'',
                        userContent = ForecastPrompt formattedTransactions (categoryTotals byCategory)\<rparr>
                       parseSpendingForecast)))"

definition generateBudgetSuggestions ::
  "llm \<Rightarrow> int \<Rightarrow> transaction list \<Rightarrow> budget_suggestion list option \<times> chat_request list" where
  "generateBudgetSuggestions ask uid txs =
     (if length txs < 5 then (None, [])
      else
        (let expenses = filter (\<lambda>t. \<not> isIncome t) txs
         in case formatTransactions expenses of
              None \<Rightarrow> (None, [])
            | Some formattedTransactions \<Rightarrow>
                (case groupBudget formattedTransactions of
                   None \<Rightarrow> (None, [])
                 | Some byCategory \<Rightarrow>
                     callModel ask
                       \<lparr>model = ''gpt-4o'',
                        systemContent = ''You are a financial advisor that creates personalized budget suggestions based on spending patterns. Provide suggestions in JSON format.'',
                        userContent = BudgetPrompt byCategory\<rparr>
                       parseBudgetSuggestions)))"

text \<open>
  \<open>targetAmount = None\<close> is an argument that is \<^verbatim>\<open>undefined\<close> or NaN; both are falsy
  and nothing else is read of it.
\<close>

definition generateSavingsGoal ::
  "llm \<Rightarrow> int \<Rightarrow> transaction list \<Rightarrow> int option \<Rightarrow> savings_goal option \<times> chat_request list" where
  "generateSavingsGoal ask uid txs targetAmount =
     (if length txs < 5 then (None, [])
      else
        (let expenses = filter (\<lambda>t. \<not> isIncome t) txs
         in case formatTransactions expenses of
              None \<Rightarrow> (None, [])
            | Some formattedTransactions \<Rightarrow>
                (case groupAmounts formattedTransactions of
                   None \<Rightarrow> (None, [])
                 | Some byCategory \<Rightarrow>
                     (let goalAmount = (case targetAmount of
                                          None \<Rightarrow> 5000
                                        | Some n \<Rightarrow> if n \<noteq> 0 then n else 5000)
                      in callModel ask
                           \<lparr>model = ''gpt-4o'',
                            systemContent = ''You are a financial advisor that creates personalized savings goals based on spending patterns. Provide suggestions in JSON format.'',
                            userContent = SavingsPrompt goalAmount (categoryAnalysis byCategory)\<rparr>
                           (parseSavingsGoal goalAmount)))))"

definition detectBillReminders ::
  "llm \<Rightarrow> int \<Rightarrow> transaction list \<Rightarrow> bill_reminder list option \<times> chat_request list" where
  "detectBillReminders ask uid txs =
     (if length txs < 10 then (None, [])
      else
        (let expenses = filter (\<lambda>t. \<not> isIncome t) txs
         in case formatTransactions expenses of
              None \<Rightarrow> (None, [])
            | Some formattedTransactions \<Rightarrow>
                callModel ask
                  \<lparr>model = ''gpt-4o'',
                   systemContent = ''You are a financial assistant that identifies recurring bill patterns from transaction history. Provide detected bill reminders in JSON format.'',
                   userContent = BillsPrompt formattedTransactions\<rparr>
                  parseBillReminders))"

definition detectSpendingPatterns ::
  "llm \<Rightarrow> int \<Rightarrow> transaction list \<Rightarrow> spending_pattern list option \<times> chat_request list" where
  "detectSpendingPatterns ask uid txs =
     (if length txs < 10 then (None, [])
      else
        (let expenses = filter (\<lambda>t. \<not> isIncome t) txs
         in case formatTransactions expenses of
              None \<Rightarrow> (None, [])
            | Some formattedTransactions \<Rightarrow>
                (let totalExpense =
                       foldl (\<lambda>sum t. NumAdd sum (f_amount t)) (NumInt 0) formattedTransactions
                 in callModel ask
                      \<lparr>model = ''gpt-4o'',
                       systemContent = ''You are a financial behavior analyst that identifies spending patterns and provides helpful insights. Provide detected patterns in JSON format.'',
                       userContent =
                         PatternsPrompt (take 20 formattedTransactions)
                           (dayOfWeekDistribution formattedTransactions) totalExpense\<rparr>
                      parseSpendingPatterns)))"

record ai_insights =
  ai_spendingForecast :: "spending_forecast option"
  ai_budgetSuggestions :: "budget_suggestion list option"
  ai_savingsGoals :: "savings_goal list option"
  ai_billReminders :: "bill_reminder list option"
  ai_spendingPatterns :: "spending_pattern list option"

text \<open>
  \<^verbatim>\<open>Promise.all\<close> over the five generators, started in this order; each runs up to its
  request before the next starts, and none rejects.
\<close>

definition generateAllInsights ::
  "llm \<Rightarrow> int \<Rightarrow> transaction list \<Rightarrow> ai_insights \<times> chat_request list" where
  "generateAllInsights ask uid txs =
     (case generateSpendingForecast ask uid txs of (spendingForecast, calls1) \<Rightarrow>
      case generateBudgetSuggestions ask uid txs of (budgetSuggestions, calls2) \<Rightarrow>
      case generateSavingsGoal ask uid txs None of (savingsGoal, calls3) \<Rightarrow>
      case detectBillReminders ask uid txs of (billReminders, calls4) \<Rightarrow>
      case detectSpendingPatterns ask uid txs of (spendingPatterns, calls5) \<Rightarrow>
        (\<lparr>ai_spendingForecast = spendingForecast,
          ai_budgetSuggestions = budgetSuggestions,
          ai_savingsGoals = map_option (\<lambda>g. [g]) savingsGoal,
          ai_billReminders = billReminders,
          ai_spendingPatterns = spendingPatterns\<rparr>,
         calls1 @ calls2 @ calls3 @ calls4 @ calls5))"

section \<open>The routes (server/routes.ts)\<close>

text \<open>
  A request carries the session's user; passport's \<^verbatim>\<open>req.isAuthenticated()\<close> is true
  exactly when \<^verbatim>\<open>req.user\<close> is set. The route names what was asked, with the inputs as
  the handler reads them: the body as \<^verbatim>\<open>insertTransactionSchema.parse\<close> returns it or
  the issues of the \<^verbatim>\<open>ZodError\<close> it throws, and a numeric parameter as \<^verbatim>\<open>parseInt\<close>
  returns it (\<open>None\<close> for NaN; for the optional \<^verbatim>\<open>targetAmount\<close> also when it is absent).
\<close>

record request =
  session_user :: "user option"

datatype zod_issue = ZodIssue string

record insert_transaction =
  ins_amount :: int
  ins_category :: string
  ins_description :: "string option"
  ins_date :: jsdate
  ins_isIncome :: bool

datatype route =
    GET_transactions
  | POST_transactions "zod_issue list + insert_transaction"
  | GET_transactions_month "int option" "int option"
  | GET_insights
  | GET_ai_insights
  | GET_ai_spending_forecast
  | GET_ai_budget_suggestions
  | GET_ai_savings_goals "int option"
  | GET_ai_bill_reminders
  | GET_ai_spending_patterns
  | GET_dashboard

record dashboard =
  balance :: int
  income :: int
  expenses :: int
  transactionCount :: nat

datatype body =
    MessageBody string
  | ZodErrorBody "zod_issue list"
  | FailureBody string string
  | TransactionsBody "transaction list"
  | TransactionBody transaction
  | InsightsBody "insight list"
  | AIInsightsBody ai_insights
  | ForecastBody spending_forecast
  | BudgetBody "budget_suggestion list"
  | SavingsBody savings_goal
  | BillsBody "bill_reminder list"
  | PatternsBody "spending_pattern list"
  | DashboardBody dashboard

text \<open>
  What a handler leaves: the response it sent (status and JSON body), or nothing when
  its promise rejected outside every \<^verbatim>\<open>try\<close> (\<open>Unhandled\<close>).
\<close>

datatype outcome = Response nat body | Unhandled exn

text \<open>
  What the handlers read besides the request and the store: the clock, the hosted model
  and \<^verbatim>\<open>Math.random\<close>.
\<close>

record env =
  now :: dateval
  ask :: llm
  rnd :: nat

type_synonym 's served = "outcome \<times> 's \<times> chat_request list"

definition isAuthenticated :: "request \<Rightarrow> bool" where
  "isAuthenticated req = (session_user req \<noteq> None)"

definition ensureAuthenticated :: "request \<Rightarrow> ('s \<Rightarrow> 's served) \<Rightarrow> 's \<Rightarrow> 's served" where
  "ensureAuthenticated req next s =
     (if isAuthenticated req then next s
      else (Response 401 (MessageBody ''Unauthorized''), s, []))"

text \<open>\<^verbatim>\<open>req.user!.id\<close> throws a TypeError when there is no user.\<close>

definition user_id :: "request \<Rightarrow> exn + int" where
  "user_id req =
     (case session_user req of
        None \<Rightarrow> Inl (Exn ''Cannot read properties of undefined'')
      | Some u \<Rightarrow> Inr (id_u u))"

definition get_transactions :: "'s IStorage \<Rightarrow> request \<Rightarrow> 's \<Rightarrow> 's served" where
  "get_transactions S req s =
     (case user_id req of
        Inl e \<Rightarrow> (Unhandled e, s, [])
      | Inr uid \<Rightarrow>
          (case st_getTransactions S s uid of
             (Inl e, s1) \<Rightarrow> (Unhandled e, s1, [])
           | (Inr txs, s1) \<Rightarrow> (Response 200 (TransactionsBody txs), s1, [])))"

definition post_transactions ::
  "'s IStorage \<Rightarrow> env \<Rightarrow> request \<Rightarrow> zod_issue list + insert_transaction \<Rightarrow> 's \<Rightarrow> 's served" where
  "post_transactions S E req parsed s =
     (case user_id req of
        Inl e \<Rightarrow> (Response 500 (MessageBody ''Failed to create transaction''), s, [])
      | Inr uid \<Rightarrow>
          (case parsed of
             Inl errors \<Rightarrow> (Response 400 (ZodErrorBody errors), s, [])
           | Inr transactionData \<Rightarrow>
               (case st_createTransaction S s (now E)
                       \<lparr>nt_userId = uid,
                        nt_amount = ins_amount transactionData,
                        nt_category = ins_category transactionData,
                        nt_description = ins_description transactionData,
                        nt_date = Some (ins_date transactionData),
                        nt_isIncome = ins_isIncome transactionData\<rparr> of
                  (Inl e, s1) \<Rightarrow> (Response 500 (MessageBody ''Failed to create transaction''), s1, [])
                | (Inr t, s1) \<Rightarrow> (Response 201 (TransactionBody t), s1, []))))"

definition get_transactions_month ::
  "'s IStorage \<Rightarrow> request \<Rightarrow> int option \<Rightarrow> int option \<Rightarrow> 's \<Rightarrow> 's served" where
  "get_transactions_month S req year mnth s =
     (case user_id req of
        Inl e \<Rightarrow> (Response 500 (MessageBody ''Failed to fetch transactions''), s, [])
      | Inr uid \<Rightarrow>
          (case (year, mnth) of
             (Some y, Some m) \<Rightarrow>
               (if m < 0 \<or> m > 11 then
                  (Response 400 (MessageBody ''Invalid year or month''), s, [])
                else
                  (case st_getTransactionsByMonth S s uid y m of
                     (Inl e, s1) \<Rightarrow>
                       (Response 500 (MessageBody ''Failed to fetch transactions''), s1, [])
                   | (Inr txs, s1) \<Rightarrow> (Response 200 (TransactionsBody txs), s1, [])))
           | _ \<Rightarrow> (Response 400 (MessageBody ''Invalid year or month''), s, [])))"

text \<open>
  The \<^verbatim>\<open>try\<close> around \<^verbatim>\<open>generateInsights\<close> never catches anything: the promise does not
  reject.
\<close>

definition get_insights :: "'s IStorage \<Rightarrow> env \<Rightarrow> request \<Rightarrow> 's \<Rightarrow> 's served" where
  "get_insights S E req s =
     (case user_id req of
        Inl e \<Rightarrow> (Unhandled e, s, [])
      | Inr uid \<Rightarrow>
          (let currentMonth = \<lparr>ym_year = fullYear (now E), ym_month = month (now E)\<rparr>;
               previousMonth =
                 (if ym_month currentMonth = 0
                  then \<lparr>ym_year = ym_year currentMonth - 1, ym_month = 11\<rparr>
                  else \<lparr>ym_year = ym_year currentMonth, ym_month = ym_month currentMonth - 1\<rparr>)
           in case generateInsights S (rnd E) currentMonth previousMonth uid s of
                (insights, s1) \<Rightarrow> (Response 200 (InsightsBody insights), s1, [])))"

definition failure_message :: "exn \<Rightarrow> string" where
  "failure_message e = (case e of Exn msg \<Rightarrow> msg)"

definition get_ai_insights :: "'s IStorage \<Rightarrow> env \<Rightarrow> request \<Rightarrow> 's \<Rightarrow> 's served" where
  "get_ai_insights S E req s =
     (case user_id req of
        Inl e \<Rightarrow> (Unhandled e, s, [])
      | Inr uid \<Rightarrow>
          (case st_getTransactions S s uid of
             (Inl e, s1) \<Rightarrow>
               (Response 500 (FailureBody ''Failed to generate AI insights'' (failure_message e)),
                s1, [])
           | (Inr txs, s1) \<Rightarrow>
               (if length txs < 5 then
                  (Response 200
                     (MessageBody ''Add more transactions to receive AI-powered financial insights''),
                   s1, [])
                else
                  (case generateAllInsights (ask E) uid txs of
                     (insights, calls) \<Rightarrow> (Response 200 (AIInsightsBody insights), s1, calls)))))"

text \<open>
  The five specific endpoints have one shape: fetch the transactions, run one generator,
  answer the message when it returned \<^verbatim>\<open>null\<close>, and map a rejected storage call to 500.
\<close>

definition specific_insight ::
  "'s IStorage \<Rightarrow> request \<Rightarrow> (int \<Rightarrow> transaction list \<Rightarrow> 'a option \<times> chat_request list) \<Rightarrow>
   ('a \<Rightarrow> body) \<Rightarrow> string \<Rightarrow> string \<Rightarrow> 's \<Rightarrow> 's served" where
  "specific_insight S req generator toBody notEnough failed s =
     (case user_id req of
        Inl e \<Rightarrow> (Unhandled e, s, [])
      | Inr uid \<Rightarrow>
          (case st_getTransactions S s uid of
             (Inl e, s1) \<Rightarrow> (Response 500 (MessageBody failed), s1, [])
           | (Inr txs, s1) \<Rightarrow>
               (case generator uid txs of
                  (None, calls) \<Rightarrow> (Response 200 (MessageBody notEnough), s1, calls)
                | (Some r, calls) \<Rightarrow> (Response 200 (toBody r), s1, calls))))"

definition get_dashboard :: "'s IStorage \<Rightarrow> env \<Rightarrow> request \<Rightarrow> 's \<Rightarrow> 's served" where
  "get_dashboard S E req s =
     (case user_id req of
        Inl e \<Rightarrow> (Unhandled e, s, [])
      | Inr uid \<Rightarrow>
          (case st_getTransactionsByMonth S s uid (fullYear (now E)) (month (now E)) of
             (Inl e, s1) \<Rightarrow> (Response 500 (MessageBody ''Failed to fetch dashboard data''), s1, [])
           | (Inr txs, s1) \<Rightarrow>
               (case fold (\<lambda>t (inc, exps).
                             if isIncome t then (inc + amount t, exps)
                             else (inc, exps + amount t))
                       txs (0, 0) of
                  (inc, exps) \<Rightarrow>
                    (Response 200
                       (DashboardBody
                          \<lparr>balance = inc - exps, income = inc, expenses = exps,
                           transactionCount = length txs\<rparr>),
                     s1, []))))"

text \<open>
  The handlers that \<^verbatim>\<open>registerRoutes\<close> registers, by route. Every registration is
  \<^verbatim>\<open>app.get(path, ensureAuthenticated, handler)\<close> (\<^verbatim>\<open>app.post\<close> for the one POST), so
  a request is served by the route's handler behind \<^verbatim>\<open>ensureAuthenticated\<close>.
\<close>

fun routeHandler :: "'s IStorage \<Rightarrow> env \<Rightarrow> request \<Rightarrow> route \<Rightarrow> 's \<Rightarrow> 's served" where
  "routeHandler S E req GET_transactions = get_transactions S req"
| "routeHandler S E req (POST_transactions parsed) = post_transactions S E req parsed"
| "routeHandler S E req (GET_transactions_month year mnth) =
     get_transactions_month S req year mnth"
| "routeHandler S E req GET_insights = get_insights S E req"
| "routeHandler S E req GET_ai_insights = get_ai_insights S E req"
| "routeHandler S E req GET_ai_spending_forecast =
     specific_insight S req (generateSpendingForecast (ask E)) ForecastBody
       ''Not enough transaction data to generate a spending forecast''
       ''Failed to generate spending forecast''"
| "routeHandler S E req GET_ai_budget_suggestions =
     specific_insight S req (generateBudgetSuggestions (ask E)) BudgetBody
       ''Not enough transaction data to generate budget suggestions''
       ''Failed to generate budget suggestions''"
| "routeHandler S E req (GET_ai_savings_goals targetAmount) =
     specific_insight S req (\<lambda>uid txs. generateSavingsGoal (ask E) uid txs targetAmount)
       SavingsBody
       ''Not enough transaction data to generate a savings goal''
       ''Failed to generate savings goal''"
| "routeHandler S E req GET_ai_bill_reminders =
     specific_insight S req (detectBillReminders (ask E)) BillsBody
       ''Not enough transaction data to detect recurring bills''
       ''Failed to generate bill reminders''"
| "routeHandler S E req GET_ai_spending_patterns =
     specific_insight S req (detectSpendingPatterns (ask E)) PatternsBody
       ''Not enough transaction data to detect spending patterns''
       ''Failed to detect spending patterns''"
| "routeHandler S E req GET_dashboard = get_dashboard S E req"

definition registerRoutes :: "'s IStorage \<Rightarrow> env \<Rightarrow> request \<Rightarrow> route \<Rightarrow> 's \<Rightarrow> 's served" where
  "registerRoutes S E req r = ensureAuthenticated req (routeHandler S E req r)"

section \<open>Notions used to state the properties\<close>

text \<open>Newest first: every earlier element has a valid date not before a later one's.\<close>

definition newestFirst :: "transaction list \<Rightarrow> bool" where
  "newestFirst txs =
     sorted_wrt (\<lambda>a b. case (getTime (date a), getTime (date b)) of
                          (Some ta, Some tb) \<Rightarrow> tb \<le> ta
                        | _ \<Rightarrow> False) txs"

text \<open>The id invariant of the store: keys below the counters, and no key twice.\<close>

definition storage_inv :: "memstorage \<Rightarrow> bool" where
  "storage_inv s =
     (list_all (\<lambda>k. k < currentTransactionId s) (Map_keys (transactions s)) \<and>
      distinct (Map_keys (transactions s)) \<and>
      list_all (\<lambda>k. k < currentUserId s) (Map_keys (users s)) \<and>
      distinct (Map_keys (users s)))"

text \<open>
  The stores the server can be in: the exported one is created by the constructor and
  changed only by the two writing methods.
\<close>

inductive reachable :: "memstorage \<Rightarrow> bool" where
  constructed: "reachable MemStorage_new"
| created_transaction: "reachable s \<Longrightarrow> reachable (snd (createTransaction s now0 d))"
| created_user: "reachable s \<Longrightarrow> reachable (snd (createUser s u))"

subsection \<open>Example data\<close>

text \<open>A runtime whose sort leaves an array it cannot order as it is.\<close>

definition keepOrder :: "transaction list \<Rightarrow> transaction list" where
  "keepOrder xs = xs"

text \<open>15 January 2024 and 15 February 2024, at midnight UTC, on a server in UTC.\<close>

definition january :: dateval where
  "january = \<lparr>time = 1705276800000, fullYear = 2024, month = 0, weekday = Monday\<rparr>"

definition february :: dateval where
  "february = \<lparr>time = 1707955200000, fullYear = 2024, month = 1, weekday = Thursday\<rparr>"

definition expense :: "int \<Rightarrow> int \<Rightarrow> string \<Rightarrow> dateval \<Rightarrow> transaction" where
  "expense i a c d =
     \<lparr>id_t = i, userId = 1, amount = a, category = c, description = None, date = Some d,
      isIncome = False\<rparr>"

definition alice :: user where
  "alice = \<lparr>id_u = 1, username = ''alice'', password = ''secret''\<rparr>"

text \<open>Three expenses of user 1: food and rent in January, food in February.\<close>

definition three_store :: memstorage where
  "three_store =
     \<lparr>users = [(1, alice)],
      transactions =
        [(1, expense 1 1000 ''food'' january),
         (2, expense 2 500 ''rent'' january),
         (3, expense 3 1248 ''food'' february)],
      currentUserId = 2,
      currentTransactionId = 4\<rparr>"

text \<open>
  A store behind the same interface whose calls start to reject: its state is the number
  of calls that still resolve (with no transactions).
\<close>

definition failing_storage :: "nat IStorage" where
  "failing_storage =
     \<lparr>st_getTransactions =
        (\<lambda>n uid. if n = 0 then (Inl (Exn ''store unavailable''), 0) else (Inr [], n - 1)),
      st_getTransactionsByMonth =
        (\<lambda>n uid y m. if n = 0 then (Inl (Exn ''store unavailable''), 0) else (Inr [], n - 1)),
      st_createTransaction =
        (\<lambda>n now0 d. if n = 0 then (Inl (Exn ''store unavailable''), 0)
                     else (Inr (expense 1 (nt_amount d) (nt_category d) now0), n - 1))\<rparr>"

subsection \<open>Category totals, in the words of the specification\<close>

text \<open>The distinct elements of a list, in the order of their first occurrence.\<close>

fun firstOccurrences :: "'a list \<Rightarrow> 'a list" where
  "firstOccurrences [] = []"
| "firstOccurrences (x # xs) = x # filter (\<lambda>y. y \<noteq> x) (firstOccurrences xs)"

text \<open>The sum of the amounts of the expense transactions of a category.\<close>

definition expenseTotal :: "transaction list \<Rightarrow> string \<Rightarrow> int" where
  "expenseTotal data c =
     sum_list (map amount (filter (\<lambda>t. \<not> isIncome t \<and> category t = c) data))"

text \<open>The change from the previous amount to the current one, in percent of the previous one.\<close>

definition percentChange :: "int \<Rightarrow> int \<Rightarrow> rat" where
  "percentChange amnt previousAmount =
     of_int (amnt - previousAmount) / of_int previousAmount * 100"

subsection \<open>Notions for the generators\<close>

text \<open>The rupee amounts of the formatted transactions of a category, in order.\<close>

definition amountsOf :: "formatted list \<Rightarrow> string \<Rightarrow> jsnum list" where
  "amountsOf fts c = map f_amount (filter (\<lambda>t. f_category t = c) fts)"

text \<open>
  Every expense has a valid date and a category that is not the name of a property of
  \<^verbatim>\<open>Object.prototype\<close>.
\<close>

definition wellFormedExpenses :: "transaction list \<Rightarrow> bool" where
  "wellFormedExpenses txs =
     list_all (\<lambda>t. isIncome t \<or> (date t \<noteq> None \<and> \<not> inherited (category t))) txs"


text \<open>The goal amount a savings request asks for: 5000 when none (or 0, or NaN) is given.\<close>

definition requestedGoal :: "int option \<Rightarrow> int" where
  "requestedGoal targetAmount =
     (case targetAmount of None \<Rightarrow> 5000 | Some n \<Rightarrow> if n \<noteq> 0 then n else 5000)"


text \<open>Five expenses of user 1, and a store that holds them; ten expenses.\<close>

definition five_expenses :: "transaction list" where
  "five_expenses =
     [expense 1 1000 ''food'' january, expense 2 500 ''rent'' january,
      expense 3 1248 ''food'' february, expense 4 300 ''fuel'' february,
      expense 5 700 ''rent'' february]"

definition five_store :: memstorage where
  "five_store =
     \<lparr>users = [(1, alice)],
      transactions = map (\<lambda>t. (id_t t, t)) five_expenses,
      currentUserId = 2,
      currentTransactionId = 6\<rparr>"


text \<open>
  The amount of a transaction in rupees, and the sum and the average of a list of
  Numbers as the code computes them: added one after the other to 0, from the left.
\<close>

definition rupees :: "transaction \<Rightarrow> jsnum" where
  "rupees t = NumDiv (NumInt (amount t)) (NumInt 100)"

definition sumInOrder :: "jsnum list \<Rightarrow> jsnum" where
  "sumInOrder xs = foldl NumAdd (NumInt 0) xs"

definition averageOf :: "jsnum list \<Rightarrow> jsnum" where
  "averageOf xs = NumDiv (sumInOrder xs) (NumInt (int (length xs)))"

text \<open>
  The aggregates by category the three grouping generators send: an entry for every
  category that occurs among the formatted expenses, and no other.
\<close>

definition totalsByCategory :: "formatted list \<Rightarrow> string \<Rightarrow> cat_total option" where
  "totalsByCategory fts c =
     (if amountsOf fts c = [] then None
      else Some \<lparr>c_total = sumInOrder (amountsOf fts c), c_avg = averageOf (amountsOf fts c)\<rparr>)"

definition groupsByCategory :: "formatted list \<Rightarrow> string \<Rightarrow> budget_group option" where
  "groupsByCategory fts c =
     (if amountsOf fts c = [] then None
      else Some \<lparr>g_total = sumInOrder (amountsOf fts c), g_count = length (amountsOf fts c),
                 g_transactions = filter (\<lambda>t. f_category t = c) fts\<rparr>)"

definition analysisByCategory :: "formatted list \<Rightarrow> string \<Rightarrow> cat_analysis option" where
  "analysisByCategory fts c =
     (if amountsOf fts c = [] then None
      else Some \<lparr>a_total = sumInOrder (amountsOf fts c), a_avg = averageOf (amountsOf fts c),
                 a_transactions = length (amountsOf fts c)\<rparr>)"

text \<open>The number of formatted expenses on a day of the week.\<close>

definition expensesOn :: "formatted list \<Rightarrow> weekday \<Rightarrow> nat" where
  "expensesOn fts d = length (filter (\<lambda>t. weekday (f_date t) = d) fts)"

text \<open>Which generator a request comes from, read off its user message.\<close>

datatype request_kind =
  ForecastRequest | BudgetRequest | SavingsRequest | BillsRequest | PatternsRequest

fun kindOf :: "user_prompt \<Rightarrow> request_kind" where
  "kindOf (ForecastPrompt fts totals) = ForecastRequest"
| "kindOf (BudgetPrompt groups) = BudgetRequest"
| "kindOf (SavingsPrompt goal analysis) = SavingsRequest"
| "kindOf (BillsPrompt fts) = BillsRequest"
| "kindOf (PatternsPrompt fts days overall) = PatternsRequest"

text \<open>
  What \<^verbatim>\<open>generateAllInsights\<close> is specified to return: the result of each of the five
  generators on the same transactions, the savings goal as a list of one, and, as the
  requests sent, those of the five generators in their order.
\<close>

definition insightsOf :: "llm \<Rightarrow> int \<Rightarrow> transaction list \<Rightarrow> ai_insights" where
  "insightsOf q uid txs =
     \<lparr>ai_spendingForecast = fst (generateSpendingForecast q uid txs),
      ai_budgetSuggestions = fst (generateBudgetSuggestions q uid txs),
      ai_savingsGoals = map_option (\<lambda>g. [g]) (fst (generateSavingsGoal q uid txs None)),
      ai_billReminders = fst (detectBillReminders q uid txs),
      ai_spendingPatterns = fst (detectSpendingPatterns q uid txs)\<rparr>"

definition requestsOf :: "llm \<Rightarrow> int \<Rightarrow> transaction list \<Rightarrow> chat_request list" where
  "requestsOf q uid txs =
     snd (generateSpendingForecast q uid txs) @ snd (generateBudgetSuggestions q uid txs) @
     snd (generateSavingsGoal q uid txs None) @ snd (detectBillReminders q uid txs) @
     snd (detectSpendingPatterns q uid txs)"


subsection \<open>The fields of a reply, in the words of the specification\<close>










subsection \<open>More example data\<close>

text \<open>
  A store made by two calls of \<^verbatim>\<open>createTransaction\<close> on the new store: an expense of
  15 January, then one whose date is an Invalid Date, as POST /api/transactions passes
  it on for a date string that \<^verbatim>\<open>new Date\<close> cannot parse.
\<close>

definition dated_expense :: new_transaction where
  "dated_expense =
     \<lparr>nt_userId = 1, nt_amount = 1000, nt_category = ''food'', nt_description = None,
      nt_date = Some (Some january), nt_isIncome = False\<rparr>"

definition undated_expense :: new_transaction where
  "undated_expense =
     \<lparr>nt_userId = 1, nt_amount = 500, nt_category = ''rent'', nt_description = None,
      nt_date = Some None, nt_isIncome = False\<rparr>"

definition undated_store :: memstorage where
  "undated_store =
     snd (createTransaction (snd (createTransaction MemStorage_new february dated_expense))
            february undated_expense)"





section \<open>Verified properties\<close>

subsection \<open>Maps and sorting\<close>

lemma map_of_Map_set: "map_of (Map_set k v m) = (map_of m)(k \<mapsto> v)"
  by (induction m) auto

lemma Map_get_Map_set: "Map_get (Map_set k v m) = (Map_get m)(k \<mapsto> v)"
  by (rule ext) (simp add: Map_get_def map_of_Map_set)

lemma Map_keys_Map_set:
  "Map_keys (Map_set k v m) = (if k \<in> set (Map_keys m) then Map_keys m else Map_keys m @ [k])"
  by (induction m) (auto simp: Map_keys_def)

lemma Map_values_Map_set_fresh:
  "k \<notin> set (Map_keys m) \<Longrightarrow> Map_values (Map_set k v m) = Map_values m @ [v]"
  by (induction m) (auto simp: Map_keys_def Map_values_def)

lemma Map_get_None_iff: "Map_get m k = None \<longleftrightarrow> k \<notin> set (Map_keys m)"
  by (simp add: Map_get_def Map_keys_def map_of_eq_None_iff)

lemma mset_insort_cmp: "mset (insort_cmp c x ys) = add_mset x (mset ys)"
  by (induction ys) auto

lemma mset_runtimeOrder: "mset (runtimeOrder rt xs) = mset xs"
  by (simp add: runtimeOrder_def)

lemma mset_foldr_insort: "mset (foldr (insort_cmp c) xs []) = mset xs"
  by (induction xs) (simp_all add: mset_insort_cmp)

lemma mset_Array_sort: "mset (Array_sort rt cmp xs) = mset xs"
  by (simp add: Array_sort_def mset_runtimeOrder mset_foldr_insort)

lemma set_Array_sort: "set (Array_sort rt cmp xs) = set xs"
  using mset_Array_sort [of rt cmp xs] by (metis set_mset_mset)

lemma length_Array_sort: "length (Array_sort rt cmp xs) = length xs"
  using mset_Array_sort [of rt cmp xs] by (metis size_mset)

lemma set_insort_cmp: "set (insort_cmp c x ys) = insert x (set ys)"
  using mset_insort_cmp [of c x ys] by (metis set_mset_add_mset_insert set_mset_mset)

lemma set_foldr_insort: "set (foldr (insort_cmp c) xs []) = set xs"
  by (induction xs) (simp_all add: set_insort_cmp)

lemma insort_cmp_cong:
  "(\<And>y. y \<in> set ys \<Longrightarrow> c x y = c' x y) \<Longrightarrow> insort_cmp c x ys = insort_cmp c' x ys"
  by (induction ys) simp_all

lemma foldr_insort_cong:
  "(\<And>a b. a \<in> set xs \<Longrightarrow> b \<in> set xs \<Longrightarrow> c a b = c' a b) \<Longrightarrow>
   foldr (insort_cmp c) xs [] = foldr (insort_cmp c') xs []"
proof (induction xs)
  case Nil
  show ?case by simp
next
  case (Cons x xs)
  have IH: "foldr (insort_cmp c) xs [] = foldr (insort_cmp c') xs []"
    by (rule Cons.IH) (simp add: Cons.prems)
  have "insort_cmp c x (foldr (insort_cmp c') xs []) = insort_cmp c' x (foldr (insort_cmp c') xs [])"
    by (rule insort_cmp_cong) (simp add: Cons.prems set_foldr_insort)
  with IH show ?case by simp
qed

lemma sorted_insort_key:
  "sorted_wrt (\<lambda>a b. k b \<le> k a) ys \<Longrightarrow>
   sorted_wrt (\<lambda>a b. k b \<le> k a) (insort_cmp (\<lambda>a b. k b - k a) x ys)"
  for k :: "'a \<Rightarrow> int"
proof (induction ys)
  case Nil
  show ?case by simp
next
  case (Cons y ys)
  show ?case
  proof (cases "k y - k x \<le> 0")
    case True
    have "\<forall>z \<in> set ys. k z \<le> k x"
    proof
      fix z assume "z \<in> set ys"
      then have "k z \<le> k y" using Cons.prems by simp
      then show "k z \<le> k x" using True by simp
    qed
    then show ?thesis using True Cons.prems by simp
  next
    case False
    have IH: "sorted_wrt (\<lambda>a b. k b \<le> k a) (insort_cmp (\<lambda>a b. k b - k a) x ys)"
      using Cons.prems by (intro Cons.IH) simp
    have "\<forall>z \<in> set (insort_cmp (\<lambda>a b. k b - k a) x ys). k z \<le> k y"
      using False Cons.prems by (simp add: set_insort_cmp)
    then show ?thesis using False IH by simp
  qed
qed

lemma sorted_foldr_insort_key:
  "sorted_wrt (\<lambda>a b. k b \<le> k a) (foldr (insort_cmp (\<lambda>a b. k b - k a)) xs [])"
  for k :: "'a \<Rightarrow> int"
  by (induction xs) (simp_all add: sorted_insort_key)


lemma storage_inv_createTransaction:
  "storage_inv s \<Longrightarrow> storage_inv (snd (createTransaction s now0 d))"
  by (auto simp: storage_inv_def createTransaction_def Let_def Map_keys_Map_set list_all_iff)

lemma storage_inv_createUser:
  "storage_inv s \<Longrightarrow> storage_inv (snd (createUser s u))"
  by (auto simp: storage_inv_def createUser_def Let_def Map_keys_Map_set list_all_iff)

lemma reachable_inv: "reachable s \<Longrightarrow> storage_inv s"
proof (induction rule: reachable.induct)
  case constructed
  show ?case by (simp add: storage_inv_def MemStorage_new_def Map_keys_def)
next
  case (created_transaction s now0 d)
  then show ?case by (simp add: storage_inv_createTransaction)
next
  case (created_user s u)
  then show ?case by (simp add: storage_inv_createUser)
qed

lemma inv_fresh_transaction: "storage_inv s \<Longrightarrow> currentTransactionId s \<notin> set (Map_keys (transactions s))"
  by (auto simp: storage_inv_def list_all_iff)

lemma inv_fresh_user: "storage_inv s \<Longrightarrow> currentUserId s \<notin> set (Map_keys (users s))"
  by (auto simp: storage_inv_def list_all_iff)

text \<open>
  Claim C7. \<open>createTransaction\<close> writes the transactions map at the newly assigned id
  only (whatever was stored under that key is replaced) and leaves the users map as it
  was; \<open>createUser\<close> writes the users map at the newly assigned id only and leaves the
  transactions map as it was; the four reading methods leave the store as it was.
\<close>

theorem storage_frame:
  "Map_get (transactions (snd (createTransaction s now0 d))) =
     (Map_get (transactions s))(currentTransactionId s \<mapsto> fst (createTransaction s now0 d)) \<and>
   id_t (fst (createTransaction s now0 d)) = currentTransactionId s \<and>
   users (snd (createTransaction s now0 d)) = users s \<and>
   Map_get (users (snd (createUser s iu))) =
     (Map_get (users s))(currentUserId s \<mapsto> fst (createUser s iu)) \<and>
   id_u (fst (createUser s iu)) = currentUserId s \<and>
   transactions (snd (createUser s iu)) = transactions s \<and>
   snd (getUser s i) = s \<and>
   snd (getUserByUsername s n) = s \<and>
   snd (getTransactions rt s uid) = s \<and>
   snd (getTransactionsByMonth rt s uid y m) = s"
  by (simp add: createTransaction_def createUser_def Let_def Map_get_Map_set getUser_def
      getUserByUsername_def getTransactions_def getTransactionsByMonth_def)

text \<open>
  Claim C8. In every store the server can reach, every stored transaction id is below
  \<open>currentTransactionId\<close>, every stored user id is below \<open>currentUserId\<close>, and no id is
  stored twice; so the id the next \<open>createTransaction\<close> or \<open>createUser\<close> assigns is not
  in the map, the call appends a new entry after the existing ones, which all stay, and
  the invariant holds again afterwards.
\<close>

theorem fresh_ids:
  assumes "reachable s"
  shows "storage_inv s \<and>
    Map_get (transactions s) (currentTransactionId s) = None \<and>
    Map_get (users s) (currentUserId s) = None \<and>
    Map_values (transactions (snd (createTransaction s now0 d))) =
      Map_values (transactions s) @ [fst (createTransaction s now0 d)] \<and>
    Map_values (users (snd (createUser s iu))) = Map_values (users s) @ [fst (createUser s iu)] \<and>
    storage_inv (snd (createTransaction s now0 d)) \<and>
    storage_inv (snd (createUser s iu))"
proof -
  have inv: "storage_inv s" using assms by (rule reachable_inv)
  have ft: "currentTransactionId s \<notin> set (Map_keys (transactions s))"
    using inv by (rule inv_fresh_transaction)
  have fu: "currentUserId s \<notin> set (Map_keys (users s))"
    using inv by (rule inv_fresh_user)
  have "Map_values (transactions (snd (createTransaction s now0 d))) =
      Map_values (transactions s) @ [fst (createTransaction s now0 d)]"
    using ft by (simp add: createTransaction_def Let_def Map_values_Map_set_fresh)
  moreover have "Map_values (users (snd (createUser s iu))) =
      Map_values (users s) @ [fst (createUser s iu)]"
    using fu by (simp add: createUser_def Let_def Map_values_Map_set_fresh)
  ultimately show ?thesis
    using inv ft fu storage_inv_createTransaction storage_inv_createUser
    by (simp add: Map_get_None_iff)
qed

theorem fresh_ids_witness:
  "reachable (snd (createUser MemStorage_new \<lparr>ins_username = ''alice'', ins_password = ''secret''\<rparr>)) \<and>
   Map_values (users (snd (createUser
      (snd (createUser MemStorage_new \<lparr>ins_username = ''alice'', ins_password = ''secret''\<rparr>))
      \<lparr>ins_username = ''bob'', ins_password = ''hidden''\<rparr>))) =
     [\<lparr>id_u = 1, username = ''alice'', password = ''secret''\<rparr>,
      \<lparr>id_u = 2, username = ''bob'', password = ''hidden''\<rparr>]"
proof -
  have r: "reachable (snd (createUser MemStorage_new \<lparr>ins_username = ''alice'', ins_password = ''secret''\<rparr>))"
    by (rule reachable.created_user [OF reachable.constructed])
  show ?thesis
    using r fresh_ids [OF r, of january "\<lparr>nt_userId = 1, nt_amount = 0, nt_category = [], nt_description = None, nt_date = None, nt_isIncome = False\<rparr>" "\<lparr>ins_username = ''bob'', ins_password = ''hidden''\<rparr>"]
    by (simp add: createUser_def MemStorage_new_def Let_def Map_values_def)
qed

lemma byDateDesc_valid:
  "date a \<noteq> None \<Longrightarrow> date b \<noteq> None \<Longrightarrow>
   (case byDateDesc a b of None \<Rightarrow> 0 | Some v \<Rightarrow> v) =
     time (the (date b)) - time (the (date a))"
  by (auto simp: byDateDesc_def getTime_def)

lemma newestFirst_Array_sort:
  assumes "\<And>t. t \<in> set xs \<Longrightarrow> date t \<noteq> None"
  shows "newestFirst (Array_sort rt byDateDesc xs)"
proof -
  let ?k = "\<lambda>t. time (the (date t))"
  have "byDateDesc a b \<noteq> None" if "a \<in> set xs" and "b \<in> set xs" for a b
    using assms [OF that(1)] assms [OF that(2)] by (auto simp: byDateDesc_def getTime_def)
  then have defined: "list_all (\<lambda>a. list_all (\<lambda>b. byDateDesc a b \<noteq> None) xs) xs"
    by (simp add: list_all_iff)
  have "foldr (insort_cmp (\<lambda>a b. case byDateDesc a b of None \<Rightarrow> 0 | Some v \<Rightarrow> v)) xs [] =
      foldr (insort_cmp (\<lambda>a b. ?k b - ?k a)) xs []"
    by (rule foldr_insort_cong) (simp add: byDateDesc_valid assms)
  then have eq: "Array_sort rt byDateDesc xs = foldr (insort_cmp (\<lambda>a b. ?k b - ?k a)) xs []"
    using defined by (simp add: Array_sort_def)
  have "sorted_wrt (\<lambda>a b. ?k b \<le> ?k a) (Array_sort rt byDateDesc xs)"
    unfolding eq by (rule sorted_foldr_insort_key)
  then show ?thesis
    unfolding newestFirst_def
    by (rule sorted_wrt_mono_rel [rotated])
       (auto simp: set_Array_sort getTime_def dest!: assms)
qed

text \<open>
  Claim C10, as the code has it. \<open>getTransactions\<close> returns exactly the stored
  transactions of the given user, and \<open>getTransactionsByMonth\<close> exactly those of them
  whose date falls in the given year and zero-based month, whatever the runtime's sort
  does with an array it cannot order. The list of \<open>getTransactionsByMonth\<close> is always
  ordered newest first: a transaction selected by month has a valid date. The list of
  \<open>getTransactions\<close> is ordered newest first when the stored dates of that user are all
  valid dates; on an \<^verbatim>\<open>Invalid Date\<close> the comparator is NaN and the order is the
  runtime's.
\<close>

theorem transactions_newest_first:
  "mset (fst (getTransactions rt s uid)) =
     mset (filter (\<lambda>t. userId t = uid) (Map_values (transactions s))) \<and>
   (list_all (\<lambda>t. date t \<noteq> None) (filter (\<lambda>t. userId t = uid) (Map_values (transactions s)))
      \<longrightarrow> newestFirst (fst (getTransactions rt s uid))) \<and>
   mset (fst (getTransactionsByMonth rt s uid y m)) =
     mset (filter (\<lambda>t. userId t = uid \<and> getFullYear (date t) = Some y \<and> getMonth (date t) = Some m)
            (Map_values (transactions s))) \<and>
   newestFirst (fst (getTransactionsByMonth rt s uid y m))"
proof -
  have a: "list_all (\<lambda>t. date t \<noteq> None) (filter (\<lambda>t. userId t = uid) (Map_values (transactions s)))
      \<longrightarrow> newestFirst (fst (getTransactions rt s uid))"
    by (auto simp: getTransactions_def list_all_iff intro!: newestFirst_Array_sort)
  have b: "newestFirst (fst (getTransactionsByMonth rt s uid y m))"
    by (auto simp: getTransactionsByMonth_def inMonth_def getFullYear_def
        intro!: newestFirst_Array_sort)
  have c: "filter (inMonth uid y m) = filter (\<lambda>t. userId t = uid \<and> getFullYear (date t) = Some y \<and> getMonth (date t) = Some m)"
    by (simp add: inMonth_def [abs_def])
  show ?thesis
    using a b by (simp add: getTransactions_def getTransactionsByMonth_def mset_Array_sort c)
qed

theorem transactions_newest_first_witness:
  "list_all (\<lambda>t. date t \<noteq> None) (filter (\<lambda>t. userId t = 1) (Map_values (transactions three_store))) \<and>
   fst (getTransactions keepOrder three_store 1) =
     [expense 3 1248 ''food'' february, expense 1 1000 ''food'' january,
      expense 2 500 ''rent'' january] \<and>
   newestFirst (fst (getTransactions keepOrder three_store 1))"
proof -
  have h: "list_all (\<lambda>t. date t \<noteq> None) (filter (\<lambda>t. userId t = 1) (Map_values (transactions three_store)))"
    by (simp add: three_store_def Map_values_def expense_def)
  have e: "fst (getTransactions keepOrder three_store 1) =
     [expense 3 1248 ''food'' february, expense 1 1000 ''food'' january,
      expense 2 500 ''rent'' january]"
    by (simp add: getTransactions_def three_store_def Map_values_def expense_def Array_sort_def byDateDesc_def getTime_def keepOrder_def
        byDateDesc_def getTime_def january_def february_def)
  show ?thesis
    using h e transactions_newest_first [of keepOrder three_store 1] by blast
qed

text \<open>
  The claim as stated has \<open>getTransactions\<close> sorted newest first for every user. POST
  /api/transactions stores an Invalid Date for a date string that cannot be parsed;
  after it the list \<open>getTransactions\<close> returns holds a transaction without a time and
  is not ordered by date, whichever of the two orders the runtime's sort leaves.
\<close>

theorem transactions_newest_first_counterexample:
  "reachable undated_store \<and>
   registerRoutes (storage keepOrder) \<lparr>now = february, ask = (\<lambda>q. Threw), rnd = 0\<rparr>
       \<lparr>session_user = Some alice\<rparr>
       (POST_transactions
          (Inr \<lparr>ins_amount = 500, ins_category = ''rent'', ins_description = None,
                ins_date = None, ins_isIncome = False\<rparr>))
       (snd (createTransaction MemStorage_new february dated_expense)) =
     (Response 201
        (TransactionBody
           \<lparr>id_t = 2, userId = 1, amount = 500, category = ''rent'', description = None,
            date = None, isIncome = False\<rparr>),
      undated_store, []) \<and>
   mset (fst (getTransactions keepOrder undated_store 1)) =
     mset (fst (getTransactions rev undated_store 1)) \<and>
   length (fst (getTransactions keepOrder undated_store 1)) = 2 \<and>
   \<not> newestFirst (fst (getTransactions keepOrder undated_store 1)) \<and>
   \<not> newestFirst (fst (getTransactions rev undated_store 1))"
proof -
  have r: "reachable undated_store"
    unfolding undated_store_def
    by (intro reachable.created_transaction reachable.constructed)
  have s: "undated_store =
      \<lparr>users = [],
       transactions =
         [(1, \<lparr>id_t = 1, userId = 1, amount = 1000, category = ''food'', description = None,
               date = Some january, isIncome = False\<rparr>),
          (2, \<lparr>id_t = 2, userId = 1, amount = 500, category = ''rent'', description = None,
               date = None, isIncome = False\<rparr>)],
       currentUserId = 1, currentTransactionId = 3\<rparr>"
    by (simp add: undated_store_def createTransaction_def MemStorage_new_def Let_def
        dated_expense_def undated_expense_def)
  have p: "registerRoutes (storage keepOrder) \<lparr>now = february, ask = (\<lambda>q. Threw), rnd = 0\<rparr>
       \<lparr>session_user = Some alice\<rparr>
       (POST_transactions
          (Inr \<lparr>ins_amount = 500, ins_category = ''rent'', ins_description = None,
                ins_date = None, ins_isIncome = False\<rparr>))
       (snd (createTransaction MemStorage_new february dated_expense)) =
     (Response 201
        (TransactionBody
           \<lparr>id_t = 2, userId = 1, amount = 500, category = ''rent'', description = None,
            date = None, isIncome = False\<rparr>),
      undated_store, [])"
    unfolding s
    by (simp add: registerRoutes_def ensureAuthenticated_def isAuthenticated_def
        post_transactions_def user_id_def storage_def alice_def createTransaction_def
        MemStorage_new_def Let_def dated_expense_def)
  have k: "fst (getTransactions keepOrder undated_store 1) =
      [\<lparr>id_t = 1, userId = 1, amount = 1000, category = ''food'', description = None,
        date = Some january, isIncome = False\<rparr>,
       \<lparr>id_t = 2, userId = 1, amount = 500, category = ''rent'', description = None,
        date = None, isIncome = False\<rparr>]"
    unfolding s
    by (simp add: getTransactions_def Map_values_def Array_sort_def byDateDesc_def getTime_def
        runtimeOrder_def keepOrder_def)
  have v: "fst (getTransactions rev undated_store 1) =
      [\<lparr>id_t = 2, userId = 1, amount = 500, category = ''rent'', description = None,
        date = None, isIncome = False\<rparr>,
       \<lparr>id_t = 1, userId = 1, amount = 1000, category = ''food'', description = None,
        date = Some january, isIncome = False\<rparr>]"
    unfolding s
    by (simp add: getTransactions_def Map_values_def Array_sort_def byDateDesc_def getTime_def
        runtimeOrder_def)
  show ?thesis
    using r p unfolding k v by (simp add: newestFirst_def getTime_def)
qed

subsection \<open>Routes\<close>

lemma dashboard_fold:
  "fold (\<lambda>t (inc, exps). if isIncome t then (inc + amount t, exps) else (inc, exps + amount t))
     txs (i, e) =
   (i + sum_list (map amount (filter isIncome txs)),
    e + sum_list (map amount (filter (\<lambda>t. \<not> isIncome t) txs)))"
  by (induction txs arbitrary: i e) simp_all

lemma sum_list_filter_Array_sort:
  "sum_list (map f (filter P (Array_sort rt cmp xs))) = sum_list (map f (filter P xs))"
  for f :: "'a \<Rightarrow> int"
proof -
  have "mset (map f (filter P (Array_sort rt cmp xs))) = mset (map f (filter P xs))"
    by (simp add: mset_Array_sort)
  then show ?thesis by (metis sum_mset_sum_list)
qed

text \<open>
  Claim C5. For an authenticated GET /api/dashboard request the response is 200 with
  income the sum of the amounts of the user's current-month transactions that are
  income, expenses the sum of the amounts of those that are not, balance their
  difference and transactionCount the number of those transactions; the store is left
  as it was.
\<close>

theorem dashboard_totals:
  "registerRoutes (storage rt) E \<lparr>session_user = Some u\<rparr> GET_dashboard s =
     (let txs = filter (\<lambda>t. userId t = id_u u \<and> getFullYear (date t) = Some (fullYear (now E)) \<and>
                             getMonth (date t) = Some (month (now E)))
                  (Map_values (transactions s));
          inc = sum_list (map amount (filter isIncome txs));
          exps = sum_list (map amount (filter (\<lambda>t. \<not> isIncome t) txs))
      in (Response 200
            (DashboardBody
               \<lparr>balance = inc - exps, income = inc, expenses = exps,
                transactionCount = length txs\<rparr>),
          s, []))"
proof -
  have c: "filter (inMonth uid y m) = filter (\<lambda>t. userId t = uid \<and> getFullYear (date t) = Some y \<and> getMonth (date t) = Some m)"
    for uid y m
    by (simp add: inMonth_def [abs_def])
  show ?thesis
    by (simp add: registerRoutes_def ensureAuthenticated_def isAuthenticated_def get_dashboard_def
        user_id_def storage_def getTransactionsByMonth_def dashboard_fold
        sum_list_filter_Array_sort length_Array_sort c Let_def)
qed

text \<open>
  Claim C6. For every route and every store: without an authenticated session the
  response is 401 with message "Unauthorized", nothing is sent to the model and the
  store is the one before the request (the handler did not run); with an authenticated
  session the request is served by the route's handler.
\<close>

theorem unauthorized_or_handled:
  "(\<not> isAuthenticated req \<longrightarrow>
      registerRoutes S E req r s = (Response 401 (MessageBody ''Unauthorized''), s, [])) \<and>
   (isAuthenticated req \<longrightarrow> registerRoutes S E req r s = routeHandler S E req r s)"
  by (simp add: registerRoutes_def ensureAuthenticated_def)

theorem unauthorized_or_handled_witness:
  "\<not> isAuthenticated \<lparr>session_user = None\<rparr> \<and>
   registerRoutes (storage keepOrder) \<lparr>now = february, ask = (\<lambda>q. Threw), rnd = 0\<rparr> \<lparr>session_user = None\<rparr>
     GET_transactions three_store =
     (Response 401 (MessageBody ''Unauthorized''), three_store, []) \<and>
   isAuthenticated \<lparr>session_user = Some alice\<rparr> \<and>
   registerRoutes (storage keepOrder) \<lparr>now = february, ask = (\<lambda>q. Threw), rnd = 0\<rparr>
     \<lparr>session_user = Some alice\<rparr> GET_transactions three_store =
     (Response 200
        (TransactionsBody
           [expense 3 1248 ''food'' february, expense 1 1000 ''food'' january,
            expense 2 500 ''rent'' january]),
      three_store, [])"
proof -
  have a: "\<not> isAuthenticated \<lparr>session_user = None\<rparr>"
    by (simp add: isAuthenticated_def)
  have b: "isAuthenticated \<lparr>session_user = Some alice\<rparr>"
    by (simp add: isAuthenticated_def)
  have c: "routeHandler (storage keepOrder) \<lparr>now = february, ask = (\<lambda>q. Threw), rnd = 0\<rparr>
     \<lparr>session_user = Some alice\<rparr> GET_transactions three_store =
     (Response 200
        (TransactionsBody
           [expense 3 1248 ''food'' february, expense 1 1000 ''food'' january,
            expense 2 500 ''rent'' january]),
      three_store, [])"
    by (simp add: get_transactions_def user_id_def storage_def alice_def
        getTransactions_def three_store_def Map_values_def expense_def Array_sort_def byDateDesc_def getTime_def keepOrder_def
        byDateDesc_def getTime_def january_def february_def)
  show ?thesis
    using a b c
      unauthorized_or_handled [of "\<lparr>session_user = None\<rparr>" "storage keepOrder"
        "\<lparr>now = february, ask = (\<lambda>q. Threw), rnd = 0\<rparr>" GET_transactions three_store]
      unauthorized_or_handled [of "\<lparr>session_user = Some alice\<rparr>" "storage keepOrder"
        "\<lparr>now = february, ask = (\<lambda>q. Threw), rnd = 0\<rparr>" GET_transactions three_store]
    by simp
qed

text \<open>
  Claim C1. With fewer than 5 transactions \<open>generateSpendingForecast\<close>,
  \<open>generateBudgetSuggestions\<close> and \<open>generateSavingsGoal\<close> return \<^verbatim>\<open>null\<close> and send
  nothing to the endpoint; with fewer than 10 so do \<open>detectBillReminders\<close> and
  \<open>detectSpendingPatterns\<close>; and GET /api/ai-insights for a user with fewer than 5 stored
  transactions answers the message, with no request sent and the store unchanged.
\<close>

theorem insufficient_data:
  "(length txs < 5 \<longrightarrow>
      generateSpendingForecast q uid txs = (None, []) \<and>
      generateBudgetSuggestions q uid txs = (None, []) \<and>
      generateSavingsGoal q uid txs target = (None, [])) \<and>
   (length txs < 10 \<longrightarrow>
      detectBillReminders q uid txs = (None, []) \<and>
      detectSpendingPatterns q uid txs = (None, [])) \<and>
   (length (filter (\<lambda>t. userId t = id_u u) (Map_values (transactions s))) < 5 \<longrightarrow>
      registerRoutes (storage rt) E \<lparr>session_user = Some u\<rparr> GET_ai_insights s =
        (Response 200
           (MessageBody ''Add more transactions to receive AI-powered financial insights''),
         s, []))"
  by (simp add: generateSpendingForecast_def generateBudgetSuggestions_def
      generateSavingsGoal_def detectBillReminders_def detectSpendingPatterns_def
      registerRoutes_def ensureAuthenticated_def isAuthenticated_def get_ai_insights_def
      user_id_def storage_def getTransactions_def length_Array_sort)

theorem insufficient_data_witness:
  "length [expense 1 1000 ''food'' january] < 5 \<and>
   generateSpendingForecast (\<lambda>q. Parsed (JObj [])) 1 [expense 1 1000 ''food'' january] = (None, []) \<and>
   length [expense 1 1000 ''food'' january] < 10 \<and>
   detectBillReminders (\<lambda>q. Parsed (JObj [])) 1 [expense 1 1000 ''food'' january] = (None, []) \<and>
   length (filter (\<lambda>t. userId t = id_u alice) (Map_values (transactions three_store))) < 5 \<and>
   registerRoutes (storage keepOrder) \<lparr>now = february, ask = (\<lambda>q. Parsed (JObj [])), rnd = 0\<rparr>
     \<lparr>session_user = Some alice\<rparr> GET_ai_insights three_store =
     (Response 200
        (MessageBody ''Add more transactions to receive AI-powered financial insights''),
      three_store, [])"
proof -
  have a: "length (filter (\<lambda>t. userId t = id_u alice) (Map_values (transactions three_store))) < 5"
    by (simp add: three_store_def Map_values_def)
  show ?thesis
    using a insufficient_data [of "[expense 1 1000 ''food'' january]" "\<lambda>q. Parsed (JObj [])" 1 None
        alice three_store keepOrder "\<lparr>now = february, ask = (\<lambda>q. Parsed (JObj [])), rnd = 0\<rparr>"]
    by simp
qed

subsection \<open>Basic insights\<close>

lemma firstOccurrences_set [simp]: "set (firstOccurrences xs) = set xs"
  by (induction xs) auto

lemma firstOccurrences_distinct [simp]: "distinct (firstOccurrences xs)"
  by (induction xs) auto

lemma firstOccurrences_snoc:
  "firstOccurrences (xs @ [c]) =
     (if c \<in> set xs then firstOccurrences xs else firstOccurrences xs @ [c])"
  by (induction xs) auto

lemma Map_get_tabulate:
  "Map_get (map (\<lambda>k. (k, f k)) ks) c = (if c \<in> set ks then Some (f c) else None)"
  by (induction ks) (auto simp: Map_get_def)

lemma Map_set_tabulate:
  "distinct ks \<Longrightarrow>
   Map_set c v (map (\<lambda>k. (k, f k)) ks) =
     (if c \<in> set ks then map (\<lambda>k. (k, if k = c then v else f k)) ks
      else map (\<lambda>k. (k, f k)) ks @ [(c, v)])"
  by (induction ks) auto

lemma fold_addByCategory:
  "fold addByCategory es [] =
     map (\<lambda>c. (c, sum_list (map amount (filter (\<lambda>t. category t = c) es))))
       (firstOccurrences (map category es))"
proof (induction es rule: rev_induct)
  case Nil
  show ?case by simp
next
  case (snoc x es)
  let ?tot = "\<lambda>es c. sum_list (map amount (filter (\<lambda>t. category t = c) es))"
  let ?ks = "firstOccurrences (map category es)"
  have step: "fold addByCategory (es @ [x]) [] = addByCategory x (map (\<lambda>c. (c, ?tot es c)) ?ks)"
    using snoc.IH by simp
  show ?case
  proof (cases "category x \<in> set (map category es)")
    case True
    then have "addByCategory x (map (\<lambda>c. (c, ?tot es c)) ?ks) =
        map (\<lambda>k. (k, if k = category x then ?tot es (category x) + amount x else ?tot es k)) ?ks"
      by (simp add: addByCategory_def Map_get_tabulate Map_set_tabulate)
    also have "\<dots> = map (\<lambda>c. (c, ?tot (es @ [x]) c)) ?ks"
      by (rule map_cong) auto
    finally show ?thesis
      using True step by (simp add: firstOccurrences_snoc)
  next
    case False
    have A: "addByCategory x (map (\<lambda>c. (c, ?tot es c)) ?ks) =
        map (\<lambda>c. (c, ?tot es c)) ?ks @ [(category x, amount x)]"
      using False by (simp add: addByCategory_def Map_get_tabulate Map_set_tabulate)
    have B: "map (\<lambda>c. (c, ?tot es c)) ?ks = map (\<lambda>c. (c, ?tot (es @ [x]) c)) ?ks"
      using False by (intro map_cong) auto
    have "filter (\<lambda>t. category t = category x) es = []"
      using False by (auto simp: filter_empty_conv image_iff)
    then have C: "amount x = ?tot (es @ [x]) (category x)" by simp
    have D: "firstOccurrences (map category (es @ [x])) = ?ks @ [category x]"
      using False by (simp add: firstOccurrences_snoc)
    have "fold addByCategory (es @ [x]) [] =
        map (\<lambda>c. (c, ?tot es c)) ?ks @ [(category x, amount x)]"
      using step A by simp
    also have "\<dots> = map (\<lambda>c. (c, ?tot (es @ [x]) c)) ?ks @
        [(category x, ?tot (es @ [x]) (category x))]"
      using B C by simp
    also have "\<dots> = map (\<lambda>c. (c, ?tot (es @ [x]) c)) (?ks @ [category x])"
      by simp
    finally show ?thesis unfolding D .
  qed
qed

lemma groupByCategory_totals:
  "groupByCategory data =
     map (\<lambda>c. (c, expenseTotal data c))
       (firstOccurrences (map category (filter (\<lambda>t. \<not> isIncome t) data)))"
  by (simp add: groupByCategory_def fold_addByCategory expenseTotal_def conj_commute)

lemma previous_amount_total:
  "(case Map_get (groupByCategory data) c of None \<Rightarrow> 0 | Some v \<Rightarrow> v) = expenseTotal data c"
proof (cases "c \<in> category ` set (filter (\<lambda>t. \<not> isIncome t) data)")
  case True
  then show ?thesis by (simp add: groupByCategory_totals Map_get_tabulate)
next
  case False
  then have "filter (\<lambda>t. \<not> isIncome t \<and> category t = c) data = []"
    by (auto simp: filter_empty_conv)
  then show ?thesis using False
    by (simp add: groupByCategory_totals Map_get_tabulate expenseTotal_def)
qed

lemma Math_round_ge: "(25 \<le> Math_round x) = (49 / 2 \<le> x)"
  unfolding Math_round_def by (simp add: le_floor_iff) linarith

lemma Math_round_le: "(Math_round x \<le> - 25) = (x < - 49 / 2)"
  unfolding Math_round_def by (simp add: floor_le_iff) linarith

lemma increasePercentage_round:
  "increasePercentage a p = Math_round (percentChange a p)"
  by (simp add: increasePercentage_def percentChange_def)

lemma categoryInsights_types:
  "map insightType (categoryInsights (groupByCategory pd) (c, a)) =
     (if expenseTotal pd c = 0 then [new_category]
      else if 49 / 2 \<le> percentChange a (expenseTotal pd c) then [increase]
      else if percentChange a (expenseTotal pd c) < - 49 / 2 then [decrease]
      else [])"
proof -
  have "\<not> (49 / 2 \<le> x \<and> x < - 49 / 2)" for x :: rat by simp
  then show ?thesis
    by (auto simp: categoryInsights_def previous_amount_total increasePercentage_round
        Math_round_ge Math_round_le Let_def)
qed

lemma generateInsights_bounds:
  "fst (generateInsights S rnd0 cur prev uid s) \<noteq> [] \<and>
   length (fst (generateInsights S rnd0 cur prev uid s)) \<le> 3"
  by (simp add: generateInsights_def Let_def split: prod.splits sum.splits)

lemma generateInsights_normal:
  assumes "st_getTransactionsByMonth S s uid (ym_year cur) (ym_month cur) = (Inr cd, s1)"
    and "st_getTransactionsByMonth S s1 uid (ym_year prev) (ym_month prev) = (Inr pd, s2)"
    and "pd \<noteq> []"
  shows "generateInsights S rnd0 cur prev uid s =
     (let found = concat (map (\<lambda>c. categoryInsights (groupByCategory pd) (c, expenseTotal cd c))
                     (firstOccurrences (map category (filter (\<lambda>t. \<not> isIncome t) cd))))
      in (take 3 (if found = [] then [genericTip rnd0] else found), s2))"
proof -
  define found where "found =
    concat (map (\<lambda>c. categoryInsights (groupByCategory pd) (c, expenseTotal cd c))
      (firstOccurrences (map category (filter (\<lambda>t. \<not> isIncome t) cd))))"
  have eq: "concat (map (categoryInsights (groupByCategory pd)) (groupByCategory cd)) = found"
    unfolding found_def by (simp add: groupByCategory_totals [of cd] comp_def)
  have "generateInsights S rnd0 cur prev uid s =
      (take 3 (if found = [] then [genericTip rnd0] else found), s2)"
    unfolding eq [symmetric] using assms
    by (simp add: generateInsights_def Let_def del: concat_eq_Nil_conv)
  then show ?thesis
    unfolding found_def Let_def .
qed

text \<open>
  Claim C9, as the code has it. \<open>generateInsights\<close> always resolves, for every store
  behind the interface, with a non-empty list of at most 3 insights: the single fallback
  tip when a storage call rejects; the single welcome tip when the previous month has
  no transactions; otherwise the insights of the categories that have an expense in the
  current month, in the order of their first occurrence, padded with a generic tip when
  there is none and cut to the first 3. A category gives a new-category insight when its
  expense total of the previous month is 0; otherwise an increase insight when the change
  in percent is at least 24.5 (it rounds to 25 or more), a decrease insight when it is
  below -24.5 (it rounds to -25 or less), and nothing in between.
\<close>

theorem insights_always_resolve:
  "fst (generateInsights S rnd0 cur prev uid s) \<noteq> [] \<and>
   length (fst (generateInsights S rnd0 cur prev uid s)) \<le> 3 \<and>
   (st_getTransactionsByMonth S s uid (ym_year cur) (ym_month cur) = (Inl e, s1) \<longrightarrow>
      generateInsights S rnd0 cur prev uid s = ([fallbackTip], s1)) \<and>
   (st_getTransactionsByMonth S s uid (ym_year cur) (ym_month cur) = (Inr cd, s1) \<longrightarrow>
      (st_getTransactionsByMonth S s1 uid (ym_year prev) (ym_month prev) = (Inl e, s2) \<longrightarrow>
         generateInsights S rnd0 cur prev uid s = ([fallbackTip], s2)) \<and>
      (st_getTransactionsByMonth S s1 uid (ym_year prev) (ym_month prev) = (Inr [], s2) \<longrightarrow>
         generateInsights S rnd0 cur prev uid s = ([welcomeTip], s2)) \<and>
      (st_getTransactionsByMonth S s1 uid (ym_year prev) (ym_month prev) = (Inr pd, s2) \<and> pd \<noteq> [] \<longrightarrow>
         generateInsights S rnd0 cur prev uid s =
           (let found = concat (map (\<lambda>c. categoryInsights (groupByCategory pd) (c, expenseTotal cd c))
                           (firstOccurrences (map category (filter (\<lambda>t. \<not> isIncome t) cd))))
            in (take 3 (if found = [] then [genericTip rnd0] else found), s2)))) \<and>
   map insightType (categoryInsights (groupByCategory pd) (c, a)) =
     (if expenseTotal pd c = 0 then [new_category]
      else if 49 / 2 \<le> percentChange a (expenseTotal pd c) then [increase]
      else if percentChange a (expenseTotal pd c) < - 49 / 2 then [decrease]
      else [])"
proof -
  have 1: "st_getTransactionsByMonth S s uid (ym_year cur) (ym_month cur) = (Inl e, s1) \<longrightarrow>
      generateInsights S rnd0 cur prev uid s = ([fallbackTip], s1)"
    by (simp add: generateInsights_def)
  have 2: "st_getTransactionsByMonth S s uid (ym_year cur) (ym_month cur) = (Inr cd, s1) \<longrightarrow>
      st_getTransactionsByMonth S s1 uid (ym_year prev) (ym_month prev) = (Inl e, s2) \<longrightarrow>
         generateInsights S rnd0 cur prev uid s = ([fallbackTip], s2)"
    by (simp add: generateInsights_def)
  have 3: "st_getTransactionsByMonth S s uid (ym_year cur) (ym_month cur) = (Inr cd, s1) \<longrightarrow>
      st_getTransactionsByMonth S s1 uid (ym_year prev) (ym_month prev) = (Inr [], s2) \<longrightarrow>
         generateInsights S rnd0 cur prev uid s = ([welcomeTip], s2)"
    by (simp add: generateInsights_def)
  show ?thesis
    using 1 2 3 generateInsights_bounds [of S rnd0 cur prev uid s]
      generateInsights_normal [of S s uid cur cd s1 prev pd s2 rnd0]
      categoryInsights_types [of pd c a]
    by blast
qed

theorem insights_always_resolve_witness:
  "st_getTransactionsByMonth failing_storage 0 1 2024 1 = (Inl (Exn ''store unavailable''), 0) \<and>
   generateInsights failing_storage 0 \<lparr>ym_year = 2024, ym_month = 1\<rparr>
     \<lparr>ym_year = 2024, ym_month = 0\<rparr> 1 0 = ([fallbackTip], 0) \<and>
   st_getTransactionsByMonth failing_storage 1 1 2024 1 = (Inr [], 0) \<and>
   generateInsights failing_storage 0 \<lparr>ym_year = 2024, ym_month = 1\<rparr>
     \<lparr>ym_year = 2024, ym_month = 0\<rparr> 1 1 = ([fallbackTip], 0) \<and>
   st_getTransactionsByMonth failing_storage 2 1 2024 1 = (Inr [], 1) \<and>
   st_getTransactionsByMonth failing_storage 1 1 2024 0 = (Inr [], 0) \<and>
   generateInsights failing_storage 0 \<lparr>ym_year = 2024, ym_month = 1\<rparr>
     \<lparr>ym_year = 2024, ym_month = 0\<rparr> 1 2 = ([welcomeTip], 0) \<and>
   st_getTransactionsByMonth (storage keepOrder) three_store 1 2024 1 =
     (Inr [expense 3 1248 ''food'' february], three_store) \<and>
   st_getTransactionsByMonth (storage keepOrder) three_store 1 2024 0 =
     (Inr [expense 1 1000 ''food'' january, expense 2 500 ''rent'' january], three_store) \<and>
   map insightType (fst (generateInsights (storage keepOrder) 0 \<lparr>ym_year = 2024, ym_month = 1\<rparr>
     \<lparr>ym_year = 2024, ym_month = 0\<rparr> 1 three_store)) = [increase]"
proof -
  let ?cur = "\<lparr>ym_year = 2024, ym_month = 1\<rparr>"
  let ?prev = "\<lparr>ym_year = 2024, ym_month = 0\<rparr>"
  let ?cd = "[expense 3 1248 ''food'' february]"
  let ?pd = "[expense 1 1000 ''food'' january, expense 2 500 ''rent'' january]"
  have f0: "st_getTransactionsByMonth failing_storage 0 1 (ym_year ?cur) (ym_month ?cur) = (Inl (Exn ''store unavailable''), 0)"
    by (simp add: failing_storage_def)
  have f1: "st_getTransactionsByMonth failing_storage 1 1 (ym_year ?cur) (ym_month ?cur) = (Inr [], 0)"
    by (simp add: failing_storage_def)
  have f1': "st_getTransactionsByMonth failing_storage 1 1 (ym_year ?prev) (ym_month ?prev) = (Inr [], 0)"
    by (simp add: failing_storage_def)
  have f0': "st_getTransactionsByMonth failing_storage 0 1 (ym_year ?prev) (ym_month ?prev) = (Inl (Exn ''store unavailable''), 0)"
    by (simp add: failing_storage_def)
  have f2: "st_getTransactionsByMonth failing_storage 2 1 (ym_year ?cur) (ym_month ?cur) = (Inr [], 1)"
    by (simp add: failing_storage_def)
  have c: "st_getTransactionsByMonth (storage keepOrder) three_store 1 (ym_year ?cur) (ym_month ?cur) = (Inr ?cd, three_store)"
    by (simp add: storage_def getTransactionsByMonth_def three_store_def Map_values_def
        inMonth_def getFullYear_def getMonth_def expense_def january_def february_def
        Array_sort_def byDateDesc_def getTime_def keepOrder_def)
  have p: "st_getTransactionsByMonth (storage keepOrder) three_store 1 (ym_year ?prev) (ym_month ?prev) = (Inr ?pd, three_store)"
    by (simp add: storage_def getTransactionsByMonth_def three_store_def Map_values_def
        inMonth_def getFullYear_def getMonth_def expense_def january_def february_def
        Array_sort_def byDateDesc_def getTime_def keepOrder_def)
  have ne: "?pd \<noteq> []" by simp
  note T1 = insights_always_resolve [of failing_storage 0 ?cur ?prev 1 0
      "Exn ''store unavailable''" 0 "[]" 0 ?pd "''food''" 1248]
  note T2 = insights_always_resolve [of failing_storage 0 ?cur ?prev 1 1
      "Exn ''store unavailable''" 0 "[]" 0 ?pd "''food''" 1248]
  note T3 = insights_always_resolve [of failing_storage 0 ?cur ?prev 1 2
      "Exn ''store unavailable''" 1 "[]" 0 ?pd "''food''" 1248]
  note T4 = insights_always_resolve [of "storage keepOrder" 0 ?cur ?prev 1 three_store
      "Exn ''store unavailable''" three_store ?cd three_store ?pd "''food''" 1248]
  have r1: "generateInsights failing_storage 0 ?cur ?prev 1 0 = ([fallbackTip], 0)"
    using T1 f0 by blast
  have r2: "generateInsights failing_storage 0 ?cur ?prev 1 1 = ([fallbackTip], 0)"
    using T2 f1 f0' by blast
  have r3: "generateInsights failing_storage 0 ?cur ?prev 1 2 = ([welcomeTip], 0)"
    using T3 f2 f1' by blast
  have r4: "generateInsights (storage keepOrder) 0 ?cur ?prev 1 three_store =
      (let found = concat (map (\<lambda>c. categoryInsights (groupByCategory ?pd) (c, expenseTotal ?cd c))
                      (firstOccurrences (map category (filter (\<lambda>t. \<not> isIncome t) ?cd))))
       in (take 3 (if found = [] then [genericTip 0] else found), three_store))"
    using T4 c p ne by blast
  have ty: "map insightType (categoryInsights (groupByCategory ?pd) (''food'', 1248)) =
      (if expenseTotal ?pd ''food'' = 0 then [new_category]
       else if 49 / 2 \<le> percentChange 1248 (expenseTotal ?pd ''food'') then [increase]
       else if percentChange 1248 (expenseTotal ?pd ''food'') < - 49 / 2 then [decrease]
       else [])"
    using T4 by blast
  have ty': "map insightType (categoryInsights (groupByCategory ?pd) (''food'', 1248)) = [increase]"
    unfolding ty by (simp add: expenseTotal_def expense_def percentChange_def)
  have found: "concat (map (\<lambda>c. categoryInsights (groupByCategory ?pd) (c, expenseTotal ?cd c))
                      (firstOccurrences (map category (filter (\<lambda>t. \<not> isIncome t) ?cd)))) =
      categoryInsights (groupByCategory ?pd) (''food'', 1248)"
    by (simp add: expenseTotal_def expense_def)
  have "map insightType (fst (generateInsights (storage keepOrder) 0 ?cur ?prev 1 three_store)) = [increase]"
    unfolding r4 found Let_def using ty' by (auto simp: take_map [symmetric])
  then show ?thesis
    using f0 f1 f2 f1' c p r1 r2 r3 by simp
qed

text \<open>
  The claim as stated names changes of at least 25 percent. With food at 1000 in January
  and 1248 in February, a change of 24.8 percent, the helper reports an increase of 25
  percent; and rent, at 500 in January and absent in February (a change of -100
  percent), gets no insight.
\<close>

lemma increasePercentage_example: "increasePercentage 1248 1000 = 25"
  unfolding increasePercentage_def Math_round_def
  by (rule floor_unique) simp_all

theorem insights_counterexample:
  "fst (generateInsights (storage keepOrder) 0 \<lparr>ym_year = 2024, ym_month = 1\<rparr>
         \<lparr>ym_year = 2024, ym_month = 0\<rparr> 1 three_store) =
     [\<lparr>insightText = ''Your food expenses increased by 25% compared to last month. Consider setting a budget for this category.'',
       insightType = increase\<rparr>] \<and>
   expenseTotal (fst (getTransactionsByMonth keepOrder three_store 1 2024 0)) ''food'' = 1000 \<and>
   expenseTotal (fst (getTransactionsByMonth keepOrder three_store 1 2024 1)) ''food'' = 1248 \<and>
   percentChange 1248 1000 < 25 \<and>
   expenseTotal (fst (getTransactionsByMonth keepOrder three_store 1 2024 0)) ''rent'' = 500 \<and>
   expenseTotal (fst (getTransactionsByMonth keepOrder three_store 1 2024 1)) ''rent'' = 0 \<and>
   percentChange 0 500 = - 100"
proof -
  have a: "fst (generateInsights (storage keepOrder) 0 \<lparr>ym_year = 2024, ym_month = 1\<rparr>
         \<lparr>ym_year = 2024, ym_month = 0\<rparr> 1 three_store) =
     [\<lparr>insightText = ''Your food expenses increased by 25% compared to last month. Consider setting a budget for this category.'',
       insightType = increase\<rparr>]"
    by (simp add: generateInsights_def storage_def getTransactionsByMonth_def three_store_def
      Map_values_def inMonth_def getFullYear_def getMonth_def expense_def january_def february_def
      Array_sort_def byDateDesc_def getTime_def keepOrder_def groupByCategory_def addByCategory_def Map_get_def categoryInsights_def
      increasePercentage_example String_int_def digit_def Let_def)
  have b: "expenseTotal (fst (getTransactionsByMonth keepOrder three_store 1 2024 0)) ''food'' = 1000 \<and>
   expenseTotal (fst (getTransactionsByMonth keepOrder three_store 1 2024 1)) ''food'' = 1248 \<and>
   expenseTotal (fst (getTransactionsByMonth keepOrder three_store 1 2024 0)) ''rent'' = 500 \<and>
   expenseTotal (fst (getTransactionsByMonth keepOrder three_store 1 2024 1)) ''rent'' = 0"
    by (simp add: getTransactionsByMonth_def three_store_def
      Map_values_def inMonth_def getFullYear_def getMonth_def expense_def january_def february_def
      Array_sort_def byDateDesc_def getTime_def keepOrder_def expenseTotal_def)
  have c: "percentChange 1248 1000 < 25 \<and> percentChange 0 500 = - 100"
    by (simp add: percentChange_def)
  show ?thesis using a b c by simp
qed

subsection \<open>The generators and the hosted model\<close>

lemma callModel_calls: "snd (callModel q r parse) = [r]"
  by (simp add: callModel_def split: llm_outcome.splits)

lemma formatTransactions_Cons:
  "formatTransactions (t # es) =
     (case formatTransaction t of
        None \<Rightarrow> None
      | Some f \<Rightarrow> map_option (Cons f) (formatTransactions es))"
  unfolding formatTransactions_def by simp

lemma formatTransactions_fields:
  "formatTransactions es = Some fts \<Longrightarrow>
   map f_amount fts = map rupees es \<and>
   map f_category fts = map category es \<and>
   map (\<lambda>f. Some (f_date f)) fts = map date es"
proof (induction es arbitrary: fts)
  case Nil
  then show ?case by (simp add: formatTransactions_def)
next
  case (Cons t es)
  then show ?case
    by (auto simp: formatTransactions_Cons formatTransaction_def rupees_def split: option.splits)
qed

lemma formatTransactions_valid:
  "list_all (\<lambda>t. date t \<noteq> None) es \<Longrightarrow> \<exists>fts. formatTransactions es = Some fts"
proof (induction es)
  case Nil
  show ?case by (simp add: formatTransactions_def)
next
  case (Cons t es)
  then show ?case
    by (auto simp: formatTransactions_Cons formatTransaction_def split: option.splits)
qed


lemma fold_pushAmount:
  "fold pushAmount fts m c =
     (case m c of
        None \<Rightarrow> if amountsOf fts c = [] then None else Some (amountsOf fts c)
      | Some amounts \<Rightarrow> Some (amounts @ amountsOf fts c))"
  by (induction fts arbitrary: m) (auto simp: pushAmount_def amountsOf_def split: option.splits)

lemma groupAmounts_plain:
  "\<not> list_ex (\<lambda>t. inherited (f_category t)) fts \<Longrightarrow>
   groupAmounts fts = Some (\<lambda>c. if amountsOf fts c = [] then None else Some (amountsOf fts c))"
  by (simp add: groupAmounts_def fold_pushAmount [abs_def])

lemma categoryTotals_spec:
  "categoryTotals (\<lambda>c. if amountsOf fts c = [] then None else Some (amountsOf fts c)) =
     totalsByCategory fts"
  by (rule ext)
     (simp add: categoryTotals_def totalsByCategory_def sumInOrder_def averageOf_def Let_def)

lemma categoryAnalysis_spec:
  "categoryAnalysis (\<lambda>c. if amountsOf fts c = [] then None else Some (amountsOf fts c)) =
     analysisByCategory fts"
  by (rule ext)
     (simp add: categoryAnalysis_def analysisByCategory_def sumInOrder_def averageOf_def Let_def)

lemma fold_addToGroup:
  "fold addToGroup fts m c =
     (let g = filter (\<lambda>t. f_category t = c) fts
      in case m c of
           None \<Rightarrow> if g = [] then None
                    else Some \<lparr>g_total = foldl NumAdd (NumInt 0) (map f_amount g),
                               g_count = length g, g_transactions = g\<rparr>
         | Some g0 \<Rightarrow> Some \<lparr>g_total = foldl NumAdd (g_total g0) (map f_amount g),
                              g_count = g_count g0 + length g,
                              g_transactions = g_transactions g0 @ g\<rparr>)"
  by (induction fts arbitrary: m) (auto simp: addToGroup_def Let_def split: option.splits)

lemma groupBudget_plain:
  "\<not> list_ex (\<lambda>t. inherited (f_category t)) fts \<Longrightarrow>
   groupBudget fts = Some (groupsByCategory fts)"
  by (simp add: groupBudget_def fold_addToGroup [abs_def] Let_def groupsByCategory_def [abs_def]
      amountsOf_def sumInOrder_def cong: if_cong)

lemma fold_weekdays:
  "fold (\<lambda>t days. days(weekday (f_date t) := days (weekday (f_date t)) + 1)) fts d0 =
     (\<lambda>d. d0 d + length (filter (\<lambda>t. weekday (f_date t) = d) fts))"
  by (induction fts arbitrary: d0) (auto simp: fun_eq_iff)

lemma dayOfWeekDistribution_spec: "dayOfWeekDistribution fts = expensesOn fts"
  unfolding dayOfWeekDistribution_def fold_weekdays expensesOn_def [abs_def] by simp

lemma foldl_amounts:
  "foldl (\<lambda>sum t. NumAdd sum (f_amount t)) a fts = foldl NumAdd a (map f_amount fts)"
  by (induction fts arbitrary: a) simp_all

lemma forecast_shape:
  assumes "formatTransactions (filter (\<lambda>t. \<not> isIncome t) txs) = Some fts"
    and "\<not> list_ex (\<lambda>t. inherited (f_category t)) fts"
    and "5 \<le> length txs"
  shows "\<exists>sys. generateSpendingForecast q uid txs =
     callModel q
       \<lparr>model = ''gpt-4o'', systemContent = sys,
        userContent = ForecastPrompt fts (totalsByCategory fts)\<rparr>
       parseSpendingForecast"
  using assms
  by (intro exI) (simp add: generateSpendingForecast_def groupAmounts_plain categoryTotals_spec)

lemma budget_shape:
  assumes "formatTransactions (filter (\<lambda>t. \<not> isIncome t) txs) = Some fts"
    and "\<not> list_ex (\<lambda>t. inherited (f_category t)) fts"
    and "5 \<le> length txs"
  shows "\<exists>sys. generateBudgetSuggestions q uid txs =
     callModel q
       \<lparr>model = ''gpt-4o'', systemContent = sys,
        userContent = BudgetPrompt (groupsByCategory fts)\<rparr>
       parseBudgetSuggestions"
  using assms
  by (intro exI) (simp add: generateBudgetSuggestions_def groupBudget_plain)

lemma savings_shape:
  assumes "formatTransactions (filter (\<lambda>t. \<not> isIncome t) txs) = Some fts"
    and "\<not> list_ex (\<lambda>t. inherited (f_category t)) fts"
    and "5 \<le> length txs"
  shows "\<exists>sys. generateSavingsGoal q uid txs target =
     callModel q
       \<lparr>model = ''gpt-4o'', systemContent = sys,
        userContent = SavingsPrompt (requestedGoal target) (analysisByCategory fts)\<rparr>
       (parseSavingsGoal (requestedGoal target))"
  using assms
  by (intro exI)
     (simp add: generateSavingsGoal_def groupAmounts_plain categoryAnalysis_spec
        requestedGoal_def Let_def)

lemma bills_shape:
  assumes "formatTransactions (filter (\<lambda>t. \<not> isIncome t) txs) = Some fts"
    and "10 \<le> length txs"
  shows "\<exists>sys. detectBillReminders q uid txs =
     callModel q \<lparr>model = ''gpt-4o'', systemContent = sys, userContent = BillsPrompt fts\<rparr>
       parseBillReminders"
  using assms by (intro exI) (simp add: detectBillReminders_def)

lemma patterns_shape:
  assumes "formatTransactions (filter (\<lambda>t. \<not> isIncome t) txs) = Some fts"
    and "10 \<le> length txs"
  shows "\<exists>sys. detectSpendingPatterns q uid txs =
     callModel q
       \<lparr>model = ''gpt-4o'', systemContent = sys,
        userContent = PatternsPrompt (take 20 fts) (expensesOn fts)
          (sumInOrder (map f_amount fts))\<rparr>
       parseSpendingPatterns"
  using assms
  by (intro exI)
     (simp add: detectSpendingPatterns_def dayOfWeekDistribution_spec foldl_amounts Let_def
        sumInOrder_def)

lemma generator_calls_le:
  "length (snd (generateSpendingForecast q uid txs)) \<le> 1"
  "length (snd (generateBudgetSuggestions q uid txs)) \<le> 1"
  "length (snd (generateSavingsGoal q uid txs target)) \<le> 1"
  "length (snd (detectBillReminders q uid txs)) \<le> 1"
  "length (snd (detectSpendingPatterns q uid txs)) \<le> 1"
  by (simp_all add: generateSpendingForecast_def generateBudgetSuggestions_def
      generateSavingsGoal_def detectBillReminders_def detectSpendingPatterns_def
      callModel_calls Let_def split: option.splits)

lemma generateAllInsights_spec:
  "generateAllInsights q uid txs = (insightsOf q uid txs, requestsOf q uid txs)"
  by (simp add: generateAllInsights_def insightsOf_def requestsOf_def case_prod_beta)

lemma requestsOf_le: "length (requestsOf q uid txs) \<le> 5"
  using generator_calls_le(1,2,4,5) [of q uid txs] generator_calls_le(3) [of q uid txs None]
  by (simp add: requestsOf_def)

lemma generator_outcomes:
  "(generateSpendingForecast q uid txs = (None, []) \<or>
      (\<exists>r. generateSpendingForecast q uid txs = callModel q r parseSpendingForecast \<and>
           kindOf (userContent r) = ForecastRequest)) \<and>
   (generateBudgetSuggestions q uid txs = (None, []) \<or>
      (\<exists>r. generateBudgetSuggestions q uid txs = callModel q r parseBudgetSuggestions \<and>
           kindOf (userContent r) = BudgetRequest)) \<and>
   (generateSavingsGoal q uid txs target = (None, []) \<or>
      (\<exists>r. generateSavingsGoal q uid txs target =
             callModel q r (parseSavingsGoal (requestedGoal target)) \<and>
           kindOf (userContent r) = SavingsRequest)) \<and>
   (detectBillReminders q uid txs = (None, []) \<or>
      (\<exists>r. detectBillReminders q uid txs = callModel q r parseBillReminders \<and>
           kindOf (userContent r) = BillsRequest)) \<and>
   (detectSpendingPatterns q uid txs = (None, []) \<or>
      (\<exists>r. detectSpendingPatterns q uid txs = callModel q r parseSpendingPatterns \<and>
           kindOf (userContent r) = PatternsRequest))"
proof (intro conjI)
  show "generateSpendingForecast q uid txs = (None, []) \<or>
      (\<exists>r. generateSpendingForecast q uid txs = callModel q r parseSpendingForecast \<and>
           kindOf (userContent r) = ForecastRequest)"
    by (simp add: generateSpendingForecast_def Let_def split: option.splits)
       (intro conjI impI allI disjI2; (rule exI, rule conjI, rule refl, simp))
  show "generateBudgetSuggestions q uid txs = (None, []) \<or>
      (\<exists>r. generateBudgetSuggestions q uid txs = callModel q r parseBudgetSuggestions \<and>
           kindOf (userContent r) = BudgetRequest)"
    by (simp add: generateBudgetSuggestions_def Let_def split: option.splits)
       (intro conjI impI allI disjI2; (rule exI, rule conjI, rule refl, simp))
  show "generateSavingsGoal q uid txs target = (None, []) \<or>
      (\<exists>r. generateSavingsGoal q uid txs target =
             callModel q r (parseSavingsGoal (requestedGoal target)) \<and>
           kindOf (userContent r) = SavingsRequest)"
    by (simp add: generateSavingsGoal_def requestedGoal_def Let_def split: option.splits)
       (intro conjI impI allI disjI2; (rule exI, rule conjI, rule refl, simp))
  show "detectBillReminders q uid txs = (None, []) \<or>
      (\<exists>r. detectBillReminders q uid txs = callModel q r parseBillReminders \<and>
           kindOf (userContent r) = BillsRequest)"
    by (simp add: detectBillReminders_def Let_def split: option.splits)
       (intro conjI impI allI disjI2; (rule exI, rule conjI, rule refl, simp))
  show "detectSpendingPatterns q uid txs = (None, []) \<or>
      (\<exists>r. detectSpendingPatterns q uid txs = callModel q r parseSpendingPatterns \<and>
           kindOf (userContent r) = PatternsRequest)"
    by (simp add: detectSpendingPatterns_def Let_def split: option.splits)
       (intro conjI impI allI disjI2; (rule exI, rule conjI, rule refl, simp))
qed

lemma wellFormed_formats:
  assumes "wellFormedExpenses xs" and "set txs = set xs"
  shows "\<exists>fts. formatTransactions (filter (\<lambda>t. \<not> isIncome t) txs) = Some fts \<and>
               \<not> list_ex (\<lambda>t. inherited (f_category t)) fts"
proof -
  have all: "\<forall>t \<in> set txs. isIncome t \<or> (date t \<noteq> None \<and> \<not> inherited (category t))"
    using assms by (simp add: wellFormedExpenses_def list_all_iff)
  then have "list_all (\<lambda>t. date t \<noteq> None) (filter (\<lambda>t. \<not> isIncome t) txs)"
    by (auto simp: list_all_iff)
  then obtain fts where f: "formatTransactions (filter (\<lambda>t. \<not> isIncome t) txs) = Some fts"
    using formatTransactions_valid by blast
  have "map f_category fts = map category (filter (\<lambda>t. \<not> isIncome t) txs)"
    using formatTransactions_fields [OF f] by simp
  then have img: "f_category ` set fts = category ` set (filter (\<lambda>t. \<not> isIncome t) txs)"
    by (metis list.set_map)
  have "\<not> inherited (f_category f)" if "f \<in> set fts" for f
  proof -
    have "f_category f \<in> category ` set (filter (\<lambda>t. \<not> isIncome t) txs)"
      using that img by blast
    then obtain x where "x \<in> set txs" "\<not> isIncome x" "category x = f_category f"
      by auto
    then show ?thesis using all by auto
  qed
  then have "\<not> list_ex (\<lambda>t. inherited (f_category t)) fts"
    by (auto simp: list_ex_iff)
  with f show ?thesis by blast
qed

lemma called_with_kind:
  assumes "g = (None, []) \<or> (\<exists>r. g = callModel q r p \<and> kindOf (userContent r) = k)"
    and "\<exists>sys. g = callModel q (R sys) p'"
  shows "\<exists>r. g = callModel q r p \<and> kindOf (userContent r) = k"
proof -
  from assms(2) obtain sys where "g = callModel q (R sys) p'" by blast
  then have "snd g = [R sys]" by (simp add: callModel_calls)
  then have "g \<noteq> (None, [])" by auto
  with assms(1) show ?thesis by blast
qed

lemma generators_called:
  assumes f: "formatTransactions (filter (\<lambda>t. \<not> isIncome t) txs) = Some fts"
    and p: "\<not> list_ex (\<lambda>t. inherited (f_category t)) fts"
    and n: "5 \<le> length txs"
  shows "\<exists>r. generateSpendingForecast q uid txs = callModel q r parseSpendingForecast \<and>
              kindOf (userContent r) = ForecastRequest"
    and "\<exists>r. generateBudgetSuggestions q uid txs = callModel q r parseBudgetSuggestions \<and>
              kindOf (userContent r) = BudgetRequest"
    and "\<exists>r. generateSavingsGoal q uid txs None = callModel q r (parseSavingsGoal 5000) \<and>
              kindOf (userContent r) = SavingsRequest"
proof -
  note o = generator_outcomes [of q uid txs None]
  show "\<exists>r. generateSpendingForecast q uid txs = callModel q r parseSpendingForecast \<and>
              kindOf (userContent r) = ForecastRequest"
    by (rule called_with_kind [OF o [THEN conjunct1] forecast_shape [OF f p n]])
  show "\<exists>r. generateBudgetSuggestions q uid txs = callModel q r parseBudgetSuggestions \<and>
              kindOf (userContent r) = BudgetRequest"
    by (rule called_with_kind [OF o [THEN conjunct2, THEN conjunct1] budget_shape [OF f p n]])
  have "\<exists>r. generateSavingsGoal q uid txs None =
               callModel q r (parseSavingsGoal (requestedGoal None)) \<and>
             kindOf (userContent r) = SavingsRequest"
    by (rule called_with_kind [OF o [THEN conjunct2, THEN conjunct2, THEN conjunct1]
          savings_shape [OF f p n]])
  then show "\<exists>r. generateSavingsGoal q uid txs None = callModel q r (parseSavingsGoal 5000) \<and>
              kindOf (userContent r) = SavingsRequest"
    by (simp add: requestedGoal_def)
qed

lemma detectors_called:
  assumes f: "formatTransactions (filter (\<lambda>t. \<not> isIncome t) txs) = Some fts"
    and n: "10 \<le> length txs"
  shows "\<exists>r. detectBillReminders q uid txs = callModel q r parseBillReminders \<and>
              kindOf (userContent r) = BillsRequest"
    and "\<exists>r. detectSpendingPatterns q uid txs = callModel q r parseSpendingPatterns \<and>
              kindOf (userContent r) = PatternsRequest"
proof -
  note o = generator_outcomes [of q uid txs None, THEN conjunct2, THEN conjunct2, THEN conjunct2]
  show "\<exists>r. detectBillReminders q uid txs = callModel q r parseBillReminders \<and>
              kindOf (userContent r) = BillsRequest"
    by (rule called_with_kind [OF o [THEN conjunct1] bills_shape [OF f n]])
  show "\<exists>r. detectSpendingPatterns q uid txs = callModel q r parseSpendingPatterns \<and>
              kindOf (userContent r) = PatternsRequest"
    by (rule called_with_kind [OF o [THEN conjunct2] patterns_shape [OF f n]])
qed

lemma detectors_idle:
  "length txs < 10 \<Longrightarrow>
   detectBillReminders q uid txs = (None, []) \<and> detectSpendingPatterns q uid txs = (None, [])"
  by (simp add: detectBillReminders_def detectSpendingPatterns_def)

lemma requestsOf_kinds:
  assumes f: "formatTransactions (filter (\<lambda>t. \<not> isIncome t) txs) = Some fts"
    and p: "\<not> list_ex (\<lambda>t. inherited (f_category t)) fts"
    and n: "5 \<le> length txs"
  shows "map (\<lambda>r. kindOf (userContent r)) (requestsOf q uid txs) =
     (if length txs < 10 then [ForecastRequest, BudgetRequest, SavingsRequest]
      else [ForecastRequest, BudgetRequest, SavingsRequest, BillsRequest, PatternsRequest])"
proof -
  from generators_called [OF f p n, of q uid]
  have three: "map (\<lambda>r. kindOf (userContent r))
      (snd (generateSpendingForecast q uid txs) @ snd (generateBudgetSuggestions q uid txs) @
       snd (generateSavingsGoal q uid txs None)) =
      [ForecastRequest, BudgetRequest, SavingsRequest]"
    by (auto simp: callModel_calls)
  show ?thesis
  proof (cases "length txs < 10")
    case True
    with three detectors_idle [OF True, of q uid] show ?thesis
      by (simp add: requestsOf_def)
  next
    case False
    then have "10 \<le> length txs" by simp
    from detectors_called [OF f this, of q uid]
    have "map (\<lambda>r. kindOf (userContent r))
        (snd (detectBillReminders q uid txs) @ snd (detectSpendingPatterns q uid txs)) =
        [BillsRequest, PatternsRequest]"
      by (auto simp: callModel_calls)
    with three False show ?thesis
      by (simp add: requestsOf_def)
  qed
qed

lemma ai_insights_served:
  "registerRoutes (storage rt) E \<lparr>session_user = Some u\<rparr> GET_ai_insights s =
     (if length (filter (\<lambda>t. userId t = id_u u) (Map_values (transactions s))) < 5
      then (Response 200
              (MessageBody ''Add more transactions to receive AI-powered financial insights''),
            s, [])
      else (Response 200
              (AIInsightsBody (insightsOf (ask E) (id_u u) (fst (getTransactions rt s (id_u u))))),
            s, requestsOf (ask E) (id_u u) (fst (getTransactions rt s (id_u u)))))"
  by (simp add: registerRoutes_def ensureAuthenticated_def isAuthenticated_def
      get_ai_insights_def user_id_def storage_def getTransactions_def length_Array_sort
      generateAllInsights_spec)

text \<open>
  Claim C2, as the code has it. An authenticated GET /api/ai-insights never makes more
  than five calls of \<^verbatim>\<open>openai.chat.completions.create\<close>. For a user with at least 5
  stored transactions the response is 200 with what \<open>generateAllInsights\<close> returns: the
  result of each of the five generators (the savings goal as a list of one), the
  requests being those of the forecast, budget, savings, bill and pattern generators in
  this order; each generator either makes no call and returns \<^verbatim>\<open>null\<close>, or makes one
  call, with a request of its own kind, whose reply its own parser reads. When the
  expenses all have a valid date and a category that is not the name of a property of
  \<^verbatim>\<open>Object.prototype\<close>, the forecast, budget and savings generators each make their call,
  and the bill and pattern detectors make theirs exactly when there are 10 transactions
  or more: 3 calls with 5 to 9 transactions, 5 calls with 10 or more.
\<close>

theorem ai_insights_call_outs:
  "length (snd (snd (registerRoutes (storage rt) E \<lparr>session_user = Some u\<rparr> GET_ai_insights s))) \<le> 5 \<and>
   (5 \<le> length (filter (\<lambda>t. userId t = id_u u) (Map_values (transactions s))) \<longrightarrow>
      registerRoutes (storage rt) E \<lparr>session_user = Some u\<rparr> GET_ai_insights s =
        (Response 200
           (AIInsightsBody (insightsOf (ask E) (id_u u) (fst (getTransactions rt s (id_u u))))),
         s, requestsOf (ask E) (id_u u) (fst (getTransactions rt s (id_u u)))) \<and>
      generateAllInsights (ask E) (id_u u) (fst (getTransactions rt s (id_u u))) =
        (insightsOf (ask E) (id_u u) (fst (getTransactions rt s (id_u u))),
         requestsOf (ask E) (id_u u) (fst (getTransactions rt s (id_u u)))) \<and>
      (generateSpendingForecast (ask E) (id_u u) (fst (getTransactions rt s (id_u u))) = (None, []) \<or>
         (\<exists>r. generateSpendingForecast (ask E) (id_u u) (fst (getTransactions rt s (id_u u))) =
                callModel (ask E) r parseSpendingForecast \<and>
              kindOf (userContent r) = ForecastRequest)) \<and>
      (generateBudgetSuggestions (ask E) (id_u u) (fst (getTransactions rt s (id_u u))) = (None, []) \<or>
         (\<exists>r. generateBudgetSuggestions (ask E) (id_u u) (fst (getTransactions rt s (id_u u))) =
                callModel (ask E) r parseBudgetSuggestions \<and>
              kindOf (userContent r) = BudgetRequest)) \<and>
      (generateSavingsGoal (ask E) (id_u u) (fst (getTransactions rt s (id_u u))) None = (None, []) \<or>
         (\<exists>r. generateSavingsGoal (ask E) (id_u u) (fst (getTransactions rt s (id_u u))) None =
                callModel (ask E) r (parseSavingsGoal 5000) \<and>
              kindOf (userContent r) = SavingsRequest)) \<and>
      (detectBillReminders (ask E) (id_u u) (fst (getTransactions rt s (id_u u))) = (None, []) \<or>
         (\<exists>r. detectBillReminders (ask E) (id_u u) (fst (getTransactions rt s (id_u u))) =
                callModel (ask E) r parseBillReminders \<and>
              kindOf (userContent r) = BillsRequest)) \<and>
      (detectSpendingPatterns (ask E) (id_u u) (fst (getTransactions rt s (id_u u))) = (None, []) \<or>
         (\<exists>r. detectSpendingPatterns (ask E) (id_u u) (fst (getTransactions rt s (id_u u))) =
                callModel (ask E) r parseSpendingPatterns \<and>
              kindOf (userContent r) = PatternsRequest))) \<and>
   (5 \<le> length (filter (\<lambda>t. userId t = id_u u) (Map_values (transactions s))) \<and>
    wellFormedExpenses (filter (\<lambda>t. userId t = id_u u) (Map_values (transactions s))) \<longrightarrow>
      (\<exists>r. generateSpendingForecast (ask E) (id_u u) (fst (getTransactions rt s (id_u u))) =
             callModel (ask E) r parseSpendingForecast \<and>
           kindOf (userContent r) = ForecastRequest) \<and>
      (\<exists>r. generateBudgetSuggestions (ask E) (id_u u) (fst (getTransactions rt s (id_u u))) =
             callModel (ask E) r parseBudgetSuggestions \<and>
           kindOf (userContent r) = BudgetRequest) \<and>
      (\<exists>r. generateSavingsGoal (ask E) (id_u u) (fst (getTransactions rt s (id_u u))) None =
             callModel (ask E) r (parseSavingsGoal 5000) \<and>
           kindOf (userContent r) = SavingsRequest) \<and>
      (if length (filter (\<lambda>t. userId t = id_u u) (Map_values (transactions s))) < 10
       then detectBillReminders (ask E) (id_u u) (fst (getTransactions rt s (id_u u))) = (None, []) \<and>
            detectSpendingPatterns (ask E) (id_u u) (fst (getTransactions rt s (id_u u))) = (None, [])
       else (\<exists>r. detectBillReminders (ask E) (id_u u) (fst (getTransactions rt s (id_u u))) =
                   callModel (ask E) r parseBillReminders \<and>
                 kindOf (userContent r) = BillsRequest) \<and>
            (\<exists>r. detectSpendingPatterns (ask E) (id_u u) (fst (getTransactions rt s (id_u u))) =
                   callModel (ask E) r parseSpendingPatterns \<and>
                 kindOf (userContent r) = PatternsRequest)) \<and>
      map (\<lambda>r. kindOf (userContent r))
          (snd (snd (registerRoutes (storage rt) E \<lparr>session_user = Some u\<rparr> GET_ai_insights s))) =
        (if length (filter (\<lambda>t. userId t = id_u u) (Map_values (transactions s))) < 10
         then [ForecastRequest, BudgetRequest, SavingsRequest]
         else [ForecastRequest, BudgetRequest, SavingsRequest, BillsRequest, PatternsRequest]) \<and>
      length (snd (snd (registerRoutes (storage rt) E \<lparr>session_user = Some u\<rparr> GET_ai_insights s))) =
        (if length (filter (\<lambda>t. userId t = id_u u) (Map_values (transactions s))) < 10
         then 3 else 5))"
proof -
  let ?xs = "filter (\<lambda>t. userId t = id_u u) (Map_values (transactions s))"
  let ?txs = "fst (getTransactions rt s (id_u u))"
  let ?q = "ask E"
  let ?served = "registerRoutes (storage rt) E \<lparr>session_user = Some u\<rparr> GET_ai_insights s"
  note r = ai_insights_served [of rt E u s]
  have len: "length ?txs = length ?xs"
    by (simp add: getTransactions_def length_Array_sort)
  have st: "set ?txs = set ?xs"
    by (simp add: getTransactions_def set_Array_sort)
  note o = generator_outcomes [of ?q "id_u u" ?txs None, unfolded requestedGoal_def option.case]
  have le: "length (snd (snd ?served)) \<le> 5"
    unfolding r using requestsOf_le [of ?q "id_u u" ?txs] by simp
  have served: "?served =
      (Response 200 (AIInsightsBody (insightsOf ?q (id_u u) ?txs)), s, requestsOf ?q (id_u u) ?txs)"
    if "5 \<le> length ?xs"
    unfolding r using that by simp
  show ?thesis
  proof (intro conjI impI)
    show "length (snd (snd ?served)) \<le> 5" by (fact le)
  next
    assume "5 \<le> length ?xs"
    then show "?served =
      (Response 200 (AIInsightsBody (insightsOf ?q (id_u u) ?txs)), s, requestsOf ?q (id_u u) ?txs)"
      by (rule served)
  next
    show "generateAllInsights ?q (id_u u) ?txs =
        (insightsOf ?q (id_u u) ?txs, requestsOf ?q (id_u u) ?txs)"
      by (rule generateAllInsights_spec)
    show "generateSpendingForecast ?q (id_u u) ?txs = (None, []) \<or>
         (\<exists>r. generateSpendingForecast ?q (id_u u) ?txs = callModel ?q r parseSpendingForecast \<and>
              kindOf (userContent r) = ForecastRequest)"
      by (rule o [THEN conjunct1])
    show "generateBudgetSuggestions ?q (id_u u) ?txs = (None, []) \<or>
         (\<exists>r. generateBudgetSuggestions ?q (id_u u) ?txs = callModel ?q r parseBudgetSuggestions \<and>
              kindOf (userContent r) = BudgetRequest)"
      by (rule o [THEN conjunct2, THEN conjunct1])
    show "generateSavingsGoal ?q (id_u u) ?txs None = (None, []) \<or>
         (\<exists>r. generateSavingsGoal ?q (id_u u) ?txs None = callModel ?q r (parseSavingsGoal 5000) \<and>
              kindOf (userContent r) = SavingsRequest)"
      by (rule o [THEN conjunct2, THEN conjunct2, THEN conjunct1])
    show "detectBillReminders ?q (id_u u) ?txs = (None, []) \<or>
         (\<exists>r. detectBillReminders ?q (id_u u) ?txs = callModel ?q r parseBillReminders \<and>
              kindOf (userContent r) = BillsRequest)"
      by (rule o [THEN conjunct2, THEN conjunct2, THEN conjunct2, THEN conjunct1])
    show "detectSpendingPatterns ?q (id_u u) ?txs = (None, []) \<or>
         (\<exists>r. detectSpendingPatterns ?q (id_u u) ?txs = callModel ?q r parseSpendingPatterns \<and>
              kindOf (userContent r) = PatternsRequest)"
      by (rule o [THEN conjunct2, THEN conjunct2, THEN conjunct2, THEN conjunct2])
  next
    assume a: "5 \<le> length ?xs \<and> wellFormedExpenses ?xs"
    then have n: "5 \<le> length ?txs" and w: "wellFormedExpenses ?xs" and n': "5 \<le> length ?xs"
      by (simp_all add: len)
    obtain fts where f: "formatTransactions (filter (\<lambda>t. \<not> isIncome t) ?txs) = Some fts"
      and p: "\<not> list_ex (\<lambda>t. inherited (f_category t)) fts"
      using wellFormed_formats [OF w st] by blast
    note g = generators_called [OF f p n, of ?q "id_u u"]
    show "\<exists>r. generateSpendingForecast ?q (id_u u) ?txs = callModel ?q r parseSpendingForecast \<and>
           kindOf (userContent r) = ForecastRequest"
      by (rule g(1))
    show "\<exists>r. generateBudgetSuggestions ?q (id_u u) ?txs = callModel ?q r parseBudgetSuggestions \<and>
           kindOf (userContent r) = BudgetRequest"
      by (rule g(2))
    show "\<exists>r. generateSavingsGoal ?q (id_u u) ?txs None = callModel ?q r (parseSavingsGoal 5000) \<and>
           kindOf (userContent r) = SavingsRequest"
      by (rule g(3))
    show "if length ?xs < 10
       then detectBillReminders ?q (id_u u) ?txs = (None, []) \<and>
            detectSpendingPatterns ?q (id_u u) ?txs = (None, [])
       else (\<exists>r. detectBillReminders ?q (id_u u) ?txs = callModel ?q r parseBillReminders \<and>
                 kindOf (userContent r) = BillsRequest) \<and>
            (\<exists>r. detectSpendingPatterns ?q (id_u u) ?txs = callModel ?q r parseSpendingPatterns \<and>
                 kindOf (userContent r) = PatternsRequest)"
    proof (cases "length ?xs < 10")
      case True
      then have "length ?txs < 10" by (simp add: len)
      from detectors_idle [OF this, of ?q "id_u u"] True show ?thesis by simp
    next
      case False
      then have "10 \<le> length ?txs" by (simp add: len)
      from detectors_called [OF f this, of ?q "id_u u"] False show ?thesis by simp
    qed
    have kinds: "map (\<lambda>r. kindOf (userContent r)) (requestsOf ?q (id_u u) ?txs) =
        (if length ?xs < 10 then [ForecastRequest, BudgetRequest, SavingsRequest]
         else [ForecastRequest, BudgetRequest, SavingsRequest, BillsRequest, PatternsRequest])"
      using requestsOf_kinds [OF f p n, of ?q "id_u u"] by (simp add: len)
    show "map (\<lambda>r. kindOf (userContent r)) (snd (snd ?served)) =
        (if length ?xs < 10 then [ForecastRequest, BudgetRequest, SavingsRequest]
         else [ForecastRequest, BudgetRequest, SavingsRequest, BillsRequest, PatternsRequest])"
      unfolding served [OF n'] using kinds by simp
    have "length (map (\<lambda>r. kindOf (userContent r)) (requestsOf ?q (id_u u) ?txs)) =
        (if length ?xs < 10 then 3 else 5)"
      unfolding kinds by simp
    then show "length (snd (snd ?served)) = (if length ?xs < 10 then 3 else 5)"
      unfolding served [OF n'] by simp
  qed
qed

theorem ai_insights_call_outs_witness:
  "5 \<le> length (filter (\<lambda>t. userId t = id_u alice) (Map_values (transactions five_store))) \<and>
   wellFormedExpenses (filter (\<lambda>t. userId t = id_u alice) (Map_values (transactions five_store))) \<and>
   map (\<lambda>r. kindOf (userContent r))
     (snd (snd (registerRoutes (storage keepOrder) \<lparr>now = february, ask = (\<lambda>q. Parsed (JObj [])), rnd = 0\<rparr>
        \<lparr>session_user = Some alice\<rparr> GET_ai_insights five_store))) =
     [ForecastRequest, BudgetRequest, SavingsRequest] \<and>
   length (snd (snd (registerRoutes (storage keepOrder) \<lparr>now = february, ask = (\<lambda>q. Parsed (JObj [])), rnd = 0\<rparr>
     \<lparr>session_user = Some alice\<rparr> GET_ai_insights five_store))) = 3 \<and>
   detectBillReminders (\<lambda>q. Parsed (JObj [])) 1 (fst (getTransactions keepOrder five_store 1)) =
     (None, [])"
proof -
  let ?E = "\<lparr>now = february, ask = (\<lambda>q. Parsed (JObj [])), rnd = 0\<rparr>"
  have xs: "filter (\<lambda>t. userId t = id_u alice) (Map_values (transactions five_store)) = five_expenses"
    by (simp add: five_store_def Map_values_def comp_def alice_def five_expenses_def expense_def)
  have n: "length five_expenses = 5"
    by (simp add: five_expenses_def)
  have w: "wellFormedExpenses five_expenses"
    by (simp add: wellFormedExpenses_def five_expenses_def expense_def inherited_def
        objectPrototypeKeys_def)
  have h: "5 \<le> length (filter (\<lambda>t. userId t = id_u alice) (Map_values (transactions five_store))) \<and>
     wellFormedExpenses (filter (\<lambda>t. userId t = id_u alice) (Map_values (transactions five_store)))"
    unfolding xs using n w by simp
  note T = ai_insights_call_outs [of keepOrder ?E alice five_store,
      THEN conjunct2, THEN conjunct2, THEN mp, OF h]
  note T3 = T [THEN conjunct2, THEN conjunct2, THEN conjunct2]
  have a: "detectBillReminders (\<lambda>q. Parsed (JObj [])) 1 (fst (getTransactions keepOrder five_store 1)) =
     (None, [])"
    using T3 [THEN conjunct1] unfolding xs by (simp add: n alice_def)
  have b: "map (\<lambda>r. kindOf (userContent r))
     (snd (snd (registerRoutes (storage keepOrder) ?E \<lparr>session_user = Some alice\<rparr> GET_ai_insights
        five_store))) = [ForecastRequest, BudgetRequest, SavingsRequest]"
    using T3 [THEN conjunct2, THEN conjunct1] unfolding xs by (simp add: n)
  have c: "length (snd (snd (registerRoutes (storage keepOrder) ?E \<lparr>session_user = Some alice\<rparr>
        GET_ai_insights five_store))) = 3"
    using T3 [THEN conjunct2, THEN conjunct2] unfolding xs by (simp add: n)
  show ?thesis using h a b c by simp
qed

text \<open>
  The claim as stated, exactly one call-out per request, fails for a user with five
  ordinary expenses: three requests are sent.
\<close>

theorem ai_insights_call_outs_counterexample:
  "length (snd (snd (registerRoutes (storage keepOrder) \<lparr>now = february, ask = (\<lambda>q. Parsed (JObj [])), rnd = 0\<rparr>
     \<lparr>session_user = Some alice\<rparr> GET_ai_insights five_store))) = 3 \<and>
   length (snd (snd (registerRoutes (storage keepOrder) \<lparr>now = february, ask = (\<lambda>q. Parsed (JObj [])), rnd = 0\<rparr>
     \<lparr>session_user = Some alice\<rparr> GET_ai_insights five_store))) \<noteq> 1"
proof -
  have "length (snd (snd (registerRoutes (storage keepOrder) \<lparr>now = february, ask = (\<lambda>q. Parsed (JObj [])), rnd = 0\<rparr>
     \<lparr>session_user = Some alice\<rparr> GET_ai_insights five_store))) = 3"
    by (simp add: registerRoutes_def ensureAuthenticated_def isAuthenticated_def
        get_ai_insights_def user_id_def storage_def getTransactions_def alice_def
        five_store_def five_expenses_def Map_values_def expense_def Array_sort_def byDateDesc_def
        getTime_def keepOrder_def january_def february_def generateAllInsights_def
        generateSpendingForecast_def generateBudgetSuggestions_def generateSavingsGoal_def
        detectBillReminders_def detectSpendingPatterns_def formatTransactions_def
        formatTransaction_def groupAmounts_def groupBudget_def inherited_def
        objectPrototypeKeys_def callModel_def Let_def)
  then show ?thesis by simp
qed

subsection \<open>Failures\<close>














subsection \<open>The pipeline of a generator\<close>















end
